theory Spec2Isabelle
  imports Main "HOL-Library.Word" "HOL-Library.AList"
begin

unbundle bit_operations_syntax

section \<open>Python values and their string coercion\<close>

text \<open>
  The identifiers carried by a user or group description are Python values: an integer,
  a string, or \<open>None\<close> when the attribute was never filled in. Python integers are
  unbounded, so they are \<open>int\<close>. Strings are byte strings: a text is identified with its
  UTF-8 encoding, so that \<open>key.encode()\<close> is the identity on the model.
\<close>

datatype pyval = PInt int | PStr string | PNone

datatype py_error = KeyError | TypeError | StoreError

text \<open>\<open>str(n)\<close> for a non-negative integer: its decimal digits, most significant first.\<close>

function dec_digits :: "int \<Rightarrow> string" where
  "dec_digits n =
     (if n < 10 then [''0123456789'' ! nat n]
      else dec_digits (n div 10) @ [''0123456789'' ! nat (n mod 10)])"
  by pat_completeness auto
termination
  by (relation "measure nat") auto

declare dec_digits.simps [simp del]

definition str_int :: "int \<Rightarrow> string" where
  "str_int n = (if n < 0 then CHR ''-'' # dec_digits (- n) else dec_digits n)"

text \<open>Python's \<open>str(v)\<close> on the three kinds of value; \<open>str(None)\<close> is the text \<open>None\<close>.\<close>

fun py_str :: "pyval \<Rightarrow> string" where
  "py_str (PInt n) = str_int n"
| "py_str (PStr s) = s"
| "py_str PNone = ''None''"

text \<open>\<open>sep.join(xs)\<close>.\<close>

fun join :: "string \<Rightarrow> string list \<Rightarrow> string" where
  "join sep [] = []"
| "join sep [x] = x"
| "join sep (x # y # ys) = x @ sep @ join sep (y # ys)"

section \<open>MD5 (\<open>hashlib.md5(...).hexdigest()\<close>)\<close>

text \<open>
  The digest of RFC 1321 on 32-bit words: the message is padded with the byte \<open>0x80\<close>,
  zero bytes up to 56 modulo 64 and its bit length as 8 little-endian bytes; every 64-byte
  block runs 64 rounds over the state \<open>(a, b, c, d)\<close>; the final state is written out in
  little-endian order, each byte as two lower-case hexadecimal digits.
\<close>

type_synonym u8 = "8 word"
type_synonym u32 = "32 word"
type_synonym u64 = "64 word"

definition md5_K :: "u32 list" where
  "md5_K =
    [0xd76aa478, 0xe8c7b756, 0x242070db, 0xc1bdceee, 0xf57c0faf, 0x4787c62a, 0xa8304613, 0xfd469501,
     0x698098d8, 0x8b44f7af, 0xffff5bb1, 0x895cd7be, 0x6b901122, 0xfd987193, 0xa679438e, 0x49b40821,
     0xf61e2562, 0xc040b340, 0x265e5a51, 0xe9b6c7aa, 0xd62f105d, 0x02441453, 0xd8a1e681, 0xe7d3fbc8,
     0x21e1cde6, 0xc33707d6, 0xf4d50d87, 0x455a14ed, 0xa9e3e905, 0xfcefa3f8, 0x676f02d9, 0x8d2a4c8a,
     0xfffa3942, 0x8771f681, 0x6d9d6122, 0xfde5380c, 0xa4beea44, 0x4bdecfa9, 0xf6bb4b60, 0xbebfbc70,
     0x289b7ec6, 0xeaa127fa, 0xd4ef3085, 0x04881d05, 0xd9d4d039, 0xe6db99e5, 0x1fa27cf8, 0xc4ac5665,
     0xf4292244, 0x432aff97, 0xab9423a7, 0xfc93a039, 0x655b59c3, 0x8f0ccc92, 0xffeff47d, 0x85845dd1,
     0x6fa87e4f, 0xfe2ce6e0, 0xa3014314, 0x4e0811a1, 0xf7537e82, 0xbd3af235, 0x2ad7d2bb, 0xeb86d391]"

definition md5_S :: "nat list" where
  "md5_S =
    [7, 12, 17, 22, 7, 12, 17, 22, 7, 12, 17, 22, 7, 12, 17, 22,
     5, 9, 14, 20, 5, 9, 14, 20, 5, 9, 14, 20, 5, 9, 14, 20,
     4, 11, 16, 23, 4, 11, 16, 23, 4, 11, 16, 23, 4, 11, 16, 23,
     6, 10, 15, 21, 6, 10, 15, 21, 6, 10, 15, 21, 6, 10, 15, 21]"

definition rotl32 :: "u32 \<Rightarrow> nat \<Rightarrow> u32" where
  "rotl32 x n = push_bit n x OR drop_bit (32 - n) x"

definition le_bytes32 :: "u32 \<Rightarrow> u8 list" where
  "le_bytes32 w = [ucast w, ucast (drop_bit 8 w), ucast (drop_bit 16 w), ucast (drop_bit 24 w)]"

definition le_bytes64 :: "u64 \<Rightarrow> u8 list" where
  "le_bytes64 w = map (\<lambda>i. ucast (drop_bit (8 * i) w)) [0, 1, 2, 3, 4, 5, 6, 7]"

definition md5_pad :: "u8 list \<Rightarrow> u8 list" where
  "md5_pad bs =
     bs @ [0x80] @ replicate ((119 - length bs mod 64) mod 64) 0
        @ le_bytes64 (8 * word_of_nat (length bs))"

fun le_word :: "u8 list \<Rightarrow> u32" where
  "le_word [] = 0"
| "le_word (b # bs) = ucast b OR push_bit 8 (le_word bs)"

fun chunks :: "nat \<Rightarrow> nat \<Rightarrow> 'a list \<Rightarrow> 'a list list" where
  "chunks 0 k xs = []"
| "chunks (Suc n) k xs = take k xs # chunks n k (drop k xs)"

definition md5_round ::
  "u32 list \<Rightarrow> u32 \<times> u32 \<times> u32 \<times> u32 \<Rightarrow> nat \<Rightarrow> u32 \<times> u32 \<times> u32 \<times> u32" where
  "md5_round M st i =
     (case st of (a, b, c, d) \<Rightarrow>
        let (f, g) =
              (if i < 16 then ((b AND c) OR (NOT b AND d), i)
               else if i < 32 then ((d AND b) OR (NOT d AND c), (5 * i + 1) mod 16)
               else if i < 48 then (b XOR c XOR d, (3 * i + 5) mod 16)
               else (c XOR (b OR NOT d), (7 * i) mod 16));
            f' = f + a + md5_K ! i + M ! g
        in (d, b + rotl32 f' (md5_S ! i), b, c))"

definition md5_block ::
  "u32 \<times> u32 \<times> u32 \<times> u32 \<Rightarrow> u8 list \<Rightarrow> u32 \<times> u32 \<times> u32 \<times> u32" where
  "md5_block st blk =
     (let M = map le_word (chunks 16 4 blk) in
      case (st, foldl (md5_round M) st [0..<64]) of
        ((a0, b0, c0, d0), (a, b, c, d)) \<Rightarrow> (a0 + a, b0 + b, c0 + c, d0 + d))"

definition md5_digest :: "u8 list \<Rightarrow> u8 list" where
  "md5_digest bs =
     (let p = md5_pad bs in
      case foldl md5_block (0x67452301, 0xefcdab89, 0x98badcfe, 0x10325476)
             (chunks (length p div 64) 64 p) of
        (a, b, c, d) \<Rightarrow> concat (map le_bytes32 [a, b, c, d]))"

definition hex_digit :: "u8 \<Rightarrow> char" where
  "hex_digit n = ''0123456789abcdef'' ! unat (n AND 0x0f)"

definition hex_byte :: "u8 \<Rightarrow> string" where
  "hex_byte b = [hex_digit (drop_bit 4 b), hex_digit b]"

definition md5_hexdigest :: "string \<Rightarrow> string" where
  "md5_hexdigest s =
     concat (map hex_byte (md5_digest (map (\<lambda>c. word_of_nat (of_char c)) s)))"

section \<open>User and group descriptions\<close>

text \<open>
  Modelled from the spec: the classes \<open>UserInfo\<close> and \<open>GroupInfo\<close> of
  \<open>message_base\<close> are not among the sources. The specification describes the user
  information as a structured identity holding at least a unique user identifier (a string
  or an integer, coerced to a string) next to a profile that a lookup may refresh, and the
  group information as the optional structured identity of a group, with its identifier.
  An identifier that was left out is \<open>PNone\<close>. Both are plain objects, hence true in a
  Python condition; an absent group description is \<open>None\<close>.
\<close>

record UserInfo =
  user_id :: pyval
  user_nickname :: "string option"

record GroupInfo =
  group_id :: pyval
  group_name :: "string option"

section \<open>Identity derivation (\<open>ChatManager._generate_stream_id\<close>)\<close>

definition generate_stream_id :: "string \<Rightarrow> UserInfo \<Rightarrow> GroupInfo option \<Rightarrow> string" where
  "generate_stream_id platform user_info group_info =
     (let components =
            [platform,
             py_str (user_id user_info),
             (case group_info of Some g \<Rightarrow> py_str (group_id g) | None \<Rightarrow> ''private'')];
          key = join ''_'' components
      in md5_hexdigest key)"

section \<open>The stream record (\<open>ChatStream\<close>)\<close>

text \<open>
  The attribute \<open>saved\<close> is the negation of the specification's dirty flag. A record read
  back from the store may lack its user description, hence the option.
\<close>

record ChatStream =
  stream_id :: string
  platform :: string
  user_info :: "UserInfo option"
  group_info :: "GroupInfo option"
  create_time :: int
  last_active_time :: int
  saved :: bool

text \<open>
  The serialised sub-document of a user or group description is a Python dictionary,
  here a list of keys and values in insertion order; the empty dictionary is the only
  one that is false in a condition.
\<close>

type_synonym pydict = "(string \<times> pyval) list"

text \<open>
  A stored document. Each of the six keys \<open>to_dict\<close> writes may be missing: \<open>None\<close>
  stands for a missing key and, for the two sub-documents, also for a stored null, which
  \<open>data.get\<close> does not tell apart.
\<close>

record doc =
  d_stream_id :: "string option"
  d_platform :: "string option"
  d_user_info :: "pydict option"
  d_group_info :: "pydict option"
  d_create_time :: "int option"
  d_last_active_time :: "int option"

text \<open>
  The methods \<open>UserInfo.to_dict\<close> and \<open>GroupInfo.to_dict\<close> and the keyword
  constructors \<open>UserInfo(**d)\<close> and \<open>GroupInfo(**d)\<close> belong to the classes that are
  not among the sources, so they are parameters of the model. A constructor may raise on
  a dictionary it does not accept.
\<close>

record codec =
  user_to_dict :: "UserInfo \<Rightarrow> pydict"
  user_of_dict :: "pydict \<Rightarrow> py_error + UserInfo"
  group_to_dict :: "GroupInfo \<Rightarrow> pydict"
  group_of_dict :: "pydict \<Rightarrow> py_error + GroupInfo"

text \<open>
  \<open>ChatStream.__init__\<close>; \<open>now\<close> is the reading of \<open>int(time.time())\<close>, which Python
  takes whether or not the document has the key. An empty \<open>data\<close> and an absent one
  give the same times.
\<close>

definition ChatStream_init ::
  "string \<Rightarrow> string \<Rightarrow> UserInfo option \<Rightarrow> GroupInfo option \<Rightarrow> doc option \<Rightarrow> int \<Rightarrow> ChatStream" where
  "ChatStream_init sid pf ui gi data now =
     (let ct = (case data of
                  Some d \<Rightarrow> (case d_create_time d of Some c \<Rightarrow> c | None \<Rightarrow> now)
                | None \<Rightarrow> now);
          lat = (case data of
                   Some d \<Rightarrow> (case d_last_active_time d of Some l \<Rightarrow> l | None \<Rightarrow> ct)
                 | None \<Rightarrow> ct)
      in \<lparr>stream_id = sid, platform = pf, user_info = ui, group_info = gi,
          create_time = ct, last_active_time = lat, saved = False\<rparr>)"

definition to_dict :: "codec \<Rightarrow> ChatStream \<Rightarrow> doc" where
  "to_dict cd s =
     \<lparr>d_stream_id = Some (stream_id s),
      d_platform = Some (platform s),
      d_user_info = (case user_info s of Some u \<Rightarrow> Some (user_to_dict cd u) | None \<Rightarrow> None),
      d_group_info = (case group_info s of Some g \<Rightarrow> Some (group_to_dict cd g) | None \<Rightarrow> None),
      d_create_time = Some (create_time s),
      d_last_active_time = Some (last_active_time s)\<rparr>"

text \<open>
  \<open>ChatStream.from_dict\<close>. The user description is built first, then the group
  description, then the two required keys are read, each raising \<open>KeyError\<close> when missing.
\<close>

definition from_dict :: "codec \<Rightarrow> doc \<Rightarrow> int \<Rightarrow> py_error + ChatStream" where
  "from_dict cd data now =
     (case (case d_user_info data of
              None \<Rightarrow> Inr None
            | Some d \<Rightarrow> if d = [] then Inr None else map_sum id Some (user_of_dict cd d)) of
        Inl e \<Rightarrow> Inl e
      | Inr ui \<Rightarrow>
     (case (case d_group_info data of
              None \<Rightarrow> Inr None
            | Some d \<Rightarrow> if d = [] then Inr None else map_sum id Some (group_of_dict cd d)) of
        Inl e \<Rightarrow> Inl e
      | Inr gi \<Rightarrow>
     (case d_stream_id data of
        None \<Rightarrow> Inl KeyError
      | Some sid \<Rightarrow>
     (case d_platform data of
        None \<Rightarrow> Inl KeyError
      | Some pf \<Rightarrow> Inr (ChatStream_init sid pf ui gi (Some data) now)))))"

definition update_active_time :: "ChatStream \<Rightarrow> int \<Rightarrow> ChatStream" where
  "update_active_time s now = s\<lparr>last_active_time := now, saved := False\<rparr>"

section \<open>The persistent store\<close>

text \<open>
  Modelled from the spec: the database wrapper \<open>Database\<close> and the collection behind
  \<open>self.db.db.chat_streams\<close> are not among the sources. The specification describes the
  collaborator as a document store with \<open>findOne(id)\<close>, \<open>findAll()\<close> and an
  insert-or-replace \<open>upsert(id, record)\<close> keyed by the identifier. The collection is the
  list of its documents in natural order. A call of the driver may fail: the flags
  \<open>read_fails\<close> and \<open>write_fails\<close> say whether the next read or write raises, and the
  environment may change them between two operations. Every call that is issued is
  appended to \<open>events\<close>, whether it succeeds or not.
\<close>

datatype db_event = Find_one string | Find_all | Update_one string

record store =
  docs :: "doc list"
  read_fails :: bool
  write_fails :: bool
  events :: "db_event list"

definition find_one :: "store \<Rightarrow> string \<Rightarrow> store \<times> (py_error + doc option)" where
  "find_one st sid =
     (let st' = st\<lparr>events := events st @ [Find_one sid]\<rparr>
      in if read_fails st then (st', Inl StoreError)
         else (st', Inr (List.find (\<lambda>d. d_stream_id d = Some sid) (docs st))))"

definition find_all :: "store \<Rightarrow> store \<times> (py_error + doc list)" where
  "find_all st =
     (let st' = st\<lparr>events := events st @ [Find_all]\<rparr>
      in if read_fails st then (st', Inl StoreError) else (st', Inr (docs st)))"

text \<open>
  \<open>update_one({"stream_id": sid}, {"$set": d}, upsert=True)\<close>: the first document with
  that identifier takes the fields of \<open>d\<close> (all six, as \<open>to_dict\<close> writes them); when
  there is none, \<open>d\<close> is inserted.
\<close>

fun upsert :: "string \<Rightarrow> doc \<Rightarrow> doc list \<Rightarrow> doc list" where
  "upsert sid d [] = [d]"
| "upsert sid d (x # xs) =
     (if d_stream_id x = Some sid then d # xs else x # upsert sid d xs)"

definition update_one :: "store \<Rightarrow> string \<Rightarrow> doc \<Rightarrow> store \<times> (py_error + unit)" where
  "update_one st sid d =
     (let st' = st\<lparr>events := events st @ [Update_one sid]\<rparr>
      in if write_fails st then (st', Inl StoreError)
         else (st'\<lparr>docs := upsert sid d (docs st)\<rparr>, Inr ()))"

section \<open>The stream cache (\<open>ChatManager\<close>)\<close>

text \<open>
  The dictionary \<open>self.streams\<close> keeps insertion order, which the flush follows: it is
  an association list with one entry per key, updated in place or extended at the end.
  The dictionary holds the record objects themselves, so a change made to a record that
  is in the dictionary is a change of its entry.
\<close>

record manager =
  streams :: "(string \<times> ChatStream) list"
  db :: store

text \<open>
  \<open>ChatManager._save_stream\<close>: the write is skipped for a record that is saved; the
  flag is set after the write has returned, so a write that raises leaves it unset.
\<close>

definition save_stream :: "codec \<Rightarrow> store \<Rightarrow> ChatStream \<Rightarrow> store \<times> (py_error + ChatStream)" where
  "save_stream cd st s =
     (if \<not> saved s then
        (case update_one st (stream_id s) (to_dict cd s) of
           (st', Inl e) \<Rightarrow> (st', Inl e)
         | (st', Inr _) \<Rightarrow> (st', Inr (s\<lparr>saved := True\<rparr>)))
      else (st, Inr s))"

text \<open>
  \<open>ChatManager.get_or_create_stream\<close>. \<open>t1\<close> and \<open>t2\<close> are the first and the second
  reading of the clock that the call takes: on a hit in memory and on creation only
  \<open>t1\<close> is read; when the record comes from the store, its construction reads \<open>t1\<close>
  and \<open>update_active_time\<close> reads \<open>t2\<close>. The result is the state after the call and
  either the exception that the call raises or the record it returns.
\<close>

definition get_or_create_stream ::
  "codec \<Rightarrow> manager \<Rightarrow> string \<Rightarrow> UserInfo \<Rightarrow> GroupInfo option \<Rightarrow> int \<Rightarrow> int
     \<Rightarrow> manager \<times> (py_error + ChatStream)" where
  "get_or_create_stream cd m pf ui gi t1 t2 =
     (let sid = generate_stream_id pf ui gi in
      case map_of (streams m) sid of
        Some stream \<Rightarrow>
          (let stream1 = stream\<lparr>user_info := Some ui\<rparr>;
               stream2 = (case gi of Some g \<Rightarrow> stream1\<lparr>group_info := Some g\<rparr> | None \<Rightarrow> stream1);
               stream3 = update_active_time stream2 t1
           in (m\<lparr>streams := AList.update sid stream3 (streams m)\<rparr>, Inr stream3))
      | None \<Rightarrow>
          (case find_one (db m) sid of
             (st1, Inl e) \<Rightarrow> (m\<lparr>db := st1\<rparr>, Inl e)
           | (st1, Inr data) \<Rightarrow>
               (case (case data of
                        Some d \<Rightarrow>
                          (case from_dict cd d t1 of
                             Inl e \<Rightarrow> Inl e
                           | Inr stream \<Rightarrow>
                               (let stream1 = stream\<lparr>user_info := Some ui\<rparr>;
                                    stream2 = (case gi of
                                                 Some g \<Rightarrow> stream1\<lparr>group_info := Some g\<rparr>
                                               | None \<Rightarrow> stream1)
                                in Inr (update_active_time stream2 t2)))
                      | None \<Rightarrow> Inr (ChatStream_init sid pf (Some ui) gi None t1)) of
                  Inl e \<Rightarrow> (m\<lparr>db := st1\<rparr>, Inl e)
                | Inr stream \<Rightarrow>
                    (case save_stream cd st1 stream of
                       (st2, Inl e) \<Rightarrow>
                         (m\<lparr>streams := AList.update sid stream (streams m), db := st2\<rparr>, Inl e)
                     | (st2, Inr stream') \<Rightarrow>
                         (m\<lparr>streams := AList.update sid stream' (streams m), db := st2\<rparr>,
                          Inr stream')))))"

definition get_stream :: "manager \<Rightarrow> string \<Rightarrow> ChatStream option" where
  "get_stream m sid = map_of (streams m) sid"

definition get_stream_by_info ::
  "manager \<Rightarrow> string \<Rightarrow> UserInfo \<Rightarrow> GroupInfo option \<Rightarrow> ChatStream option" where
  "get_stream_by_info m pf ui gi = map_of (streams m) (generate_stream_id pf ui gi)"

text \<open>
  \<open>ChatManager._save_all_streams\<close>: the records are saved in the order of the
  dictionary; the first write that raises ends the loop, with the records before it saved.
\<close>

fun save_streams ::
  "codec \<Rightarrow> (string \<times> ChatStream) list \<Rightarrow> store
     \<Rightarrow> (string \<times> ChatStream) list \<times> store \<times> (py_error + unit)" where
  "save_streams cd [] st = ([], st, Inr ())"
| "save_streams cd ((k, s) # rest) st =
     (case save_stream cd st s of
        (st', Inl e) \<Rightarrow> ((k, s) # rest, st', Inl e)
      | (st', Inr s') \<Rightarrow>
          (case save_streams cd rest st' of
             (rest', st'', r) \<Rightarrow> ((k, s') # rest', st'', r)))"

definition save_all_streams :: "codec \<Rightarrow> manager \<Rightarrow> manager \<times> (py_error + unit)" where
  "save_all_streams cd m =
     (case save_streams cd (streams m) (db m) of
        (strs, st, r) \<Rightarrow> (m\<lparr>streams := strs, db := st\<rparr>, r))"

text \<open>
  \<open>ChatManager.load_all_streams\<close>: every document of the collection is turned into a
  record and stored under the record's own identifier, whatever the dictionary held
  there. \<open>clock k\<close> is the clock reading taken while the \<open>k\<close>-th document is read. A
  document that cannot be read ends the loop with the exception; the entries made so
  far stay.
\<close>

fun load_docs ::
  "codec \<Rightarrow> (nat \<Rightarrow> int) \<Rightarrow> nat \<Rightarrow> doc list \<Rightarrow> (string \<times> ChatStream) list
     \<Rightarrow> (string \<times> ChatStream) list \<times> (py_error + unit)" where
  "load_docs cd clock k [] strs = (strs, Inr ())"
| "load_docs cd clock k (data # rest) strs =
     (case from_dict cd data (clock k) of
        Inl e \<Rightarrow> (strs, Inl e)
      | Inr stream \<Rightarrow>
          load_docs cd clock (Suc k) rest (AList.update (stream_id stream) stream strs))"

definition load_all_streams :: "codec \<Rightarrow> manager \<Rightarrow> (nat \<Rightarrow> int) \<Rightarrow> manager \<times> (py_error + unit)" where
  "load_all_streams cd m clock =
     (case find_all (db m) of
        (st1, Inl e) \<Rightarrow> (m\<lparr>db := st1\<rparr>, Inl e)
      | (st1, Inr all_streams) \<Rightarrow>
          (case load_docs cd clock 0 all_streams (streams m) of
             (strs, r) \<Rightarrow> (m\<lparr>streams := strs, db := st1\<rparr>, r)))"

section \<open>Concrete data for the examples\<close>

text \<open>
  One instance of the serialisation parameters: every attribute is written under its
  name, and the constructor reads the two attributes back, raising \<open>TypeError\<close> on any
  other dictionary.
\<close>

definition nick_val :: "string option \<Rightarrow> pyval" where
  "nick_val n = (case n of Some x \<Rightarrow> PStr x | None \<Rightarrow> PNone)"

definition val_nick :: "pyval \<Rightarrow> py_error + string option" where
  "val_nick v = (case v of PStr x \<Rightarrow> Inr (Some x) | PNone \<Rightarrow> Inr None | PInt _ \<Rightarrow> Inl TypeError)"

definition example_codec :: codec where
  "example_codec =
     \<lparr>user_to_dict = (\<lambda>u. [(''user_id'', user_id u), (''user_nickname'', nick_val (user_nickname u))]),
      user_of_dict = (\<lambda>d. case d of
          [(k1, i), (k2, n)] \<Rightarrow>
            (if k1 = ''user_id'' \<and> k2 = ''user_nickname'' then
               (case val_nick n of
                  Inl e \<Rightarrow> Inl e
                | Inr x \<Rightarrow> Inr \<lparr>user_id = i, user_nickname = x\<rparr>)
             else Inl TypeError)
        | _ \<Rightarrow> Inl TypeError),
      group_to_dict = (\<lambda>g. [(''group_id'', group_id g), (''group_name'', nick_val (group_name g))]),
      group_of_dict = (\<lambda>d. case d of
          [(k1, i), (k2, n)] \<Rightarrow>
            (if k1 = ''group_id'' \<and> k2 = ''group_name'' then
               (case val_nick n of
                  Inl e \<Rightarrow> Inl e
                | Inr x \<Rightarrow> Inr \<lparr>group_id = i, group_name = x\<rparr>)
             else Inl TypeError)
        | _ \<Rightarrow> Inl TypeError)\<rparr>"

definition user42 :: UserInfo where
  "user42 = \<lparr>user_id = PInt 42, user_nickname = Some ''ann''\<rparr>"

definition user42' :: UserInfo where
  "user42' = \<lparr>user_id = PInt 42, user_nickname = Some ''anna''\<rparr>"

definition group7 :: GroupInfo where
  "group7 = \<lparr>group_id = PInt 7, group_name = Some ''team''\<rparr>"

definition empty_store :: store where
  "empty_store = \<lparr>docs = [], read_fails = False, write_fails = False, events = []\<rparr>"

text \<open>The record of user 42 in group 7, created at time 100 and already written.\<close>

definition stream_42_7 :: ChatStream where
  "stream_42_7 =
     \<lparr>stream_id = generate_stream_id ''qq'' user42 (Some group7), platform = ''qq'',
      user_info = Some user42, group_info = Some group7,
      create_time = 100, last_active_time = 100, saved = True\<rparr>"

definition store_42_7 :: store where
  "store_42_7 =
     \<lparr>docs = [to_dict example_codec stream_42_7], read_fails = False, write_fails = False,
      events = []\<rparr>"

definition manager_42_7 :: manager where
  "manager_42_7 =
     \<lparr>streams = [(generate_stream_id ''qq'' user42 (Some group7), stream_42_7)],
      db = store_42_7\<rparr>"

section \<open>Runs of the cache\<close>

text \<open>
  \<open>ChatManager.__init__\<close> starts with an empty dictionary over the store it is given.
  A run is a sequence of calls made one after the other on the manager; the flush and the
  hydration are calls of such a run as well, and the environment may change between two
  calls whether the store can be reached.
\<close>

definition ChatManager_init :: "store \<Rightarrow> manager" where
  "ChatManager_init st = \<lparr>streams = [], db = st\<rparr>"

datatype call =
    Get_or_create string UserInfo "GroupInfo option" int int
  | Save_all
  | Load_all "nat \<Rightarrow> int"
  | Faults bool bool

fun step :: "codec \<Rightarrow> manager \<Rightarrow> call \<Rightarrow> manager" where
  "step cd m (Get_or_create pf ui gi t1 t2) = fst (get_or_create_stream cd m pf ui gi t1 t2)"
| "step cd m Save_all = fst (save_all_streams cd m)"
| "step cd m (Load_all clock) = fst (load_all_streams cd m clock)"
| "step cd m (Faults fr fw) = m\<lparr>db := (db m)\<lparr>read_fails := fr, write_fails := fw\<rparr>\<rparr>"

definition run :: "codec \<Rightarrow> manager \<Rightarrow> call list \<Rightarrow> manager" where
  "run cd m cs = foldl (step cd) m cs"

text \<open>
  The clock does not go back: the readings of the calls of a run, in their order, never
  decrease, starting from the time \<open>T\<close>. \<open>final_time\<close> is the last reading.
\<close>

fun clock_ok :: "int \<Rightarrow> call list \<Rightarrow> bool" where
  "clock_ok T [] = True"
| "clock_ok T (Get_or_create pf ui gi t1 t2 # cs) = (T \<le> t1 \<and> t1 \<le> t2 \<and> clock_ok t2 cs)"
| "clock_ok T (c # cs) = clock_ok T cs"

fun final_time :: "int \<Rightarrow> call list \<Rightarrow> int" where
  "final_time T [] = T"
| "final_time T (Get_or_create pf ui gi t1 t2 # cs) = final_time t2 cs"
| "final_time T (c # cs) = final_time T cs"

text \<open>
  The times of a record or of a document are in order up to the time \<open>T\<close>: creation is
  not after the last activity, which is not after \<open>T\<close>. A document has both times, as
  every document written by \<open>to_dict\<close> has.
\<close>

definition record_times_ok :: "int \<Rightarrow> ChatStream \<Rightarrow> bool" where
  "record_times_ok T s = (create_time s \<le> last_active_time s \<and> last_active_time s \<le> T)"

definition doc_times_ok :: "int \<Rightarrow> doc \<Rightarrow> bool" where
  "doc_times_ok T d =
     (case d_create_time d of
        None \<Rightarrow> False
      | Some c \<Rightarrow>
          (case d_last_active_time d of None \<Rightarrow> False | Some l \<Rightarrow> c \<le> l \<and> l \<le> T))"

definition times_ok :: "int \<Rightarrow> manager \<Rightarrow> bool" where
  "times_ok T m =
     (list_all (\<lambda>e. record_times_ok T (snd e)) (streams m)
      \<and> list_all (doc_times_ok T) (docs (db m)))"

text \<open>
  The same record after a later lookup with a new nickname: changed in memory at time
  200 and not yet written, while the store still holds the document of time 100.
\<close>

definition stream_42_7_active :: ChatStream where
  "stream_42_7_active =
     stream_42_7\<lparr>user_info := Some user42', last_active_time := 200, saved := False\<rparr>"

definition manager_42_7_active :: manager where
  "manager_42_7_active =
     \<lparr>streams = [(generate_stream_id ''qq'' user42 (Some group7), stream_42_7_active)],
      db = store_42_7\<rparr>"

text \<open>A group whose identifier is the very text that stands for an absent group.\<close>

definition group_private :: GroupInfo where
  "group_private = \<lparr>group_id = PStr ''private'', group_name = None\<rparr>"

text \<open>
  A record of user 42 kept under the identifier of the key \<open>qq_42_private\<close> with that
  group as its group, created at time 50, and a store that holds nothing but it.
\<close>

definition stream_42_private :: ChatStream where
  "stream_42_private =
     \<lparr>stream_id = generate_stream_id ''qq'' user42 (Some group_private), platform = ''qq'',
      user_info = Some user42, group_info = Some group_private,
      create_time = 50, last_active_time = 50, saved = True\<rparr>"

definition store_42_private :: store where
  "store_42_private =
     \<lparr>docs = [to_dict example_codec stream_42_private], read_fails = False,
      write_fails = False, events = []\<rparr>"

section \<open>Well-formed stores and serialisations\<close>

text \<open>
  What the round trip through the store needs from the serialisation parameters, for the
  descriptions a record carries: the dictionary written for a description is not empty
  (an empty one is read back as an absent description) and the constructor rebuilds the
  description from it.
\<close>

definition codec_ok :: "codec \<Rightarrow> ChatStream \<Rightarrow> bool" where
  "codec_ok cd s =
     ((case user_info s of
         None \<Rightarrow> True
       | Some u \<Rightarrow> user_to_dict cd u \<noteq> [] \<and> user_of_dict cd (user_to_dict cd u) = Inr u)
      \<and> (case group_info s of
            None \<Rightarrow> True
          | Some g \<Rightarrow> group_to_dict cd g \<noteq> [] \<and> group_of_dict cd (group_to_dict cd g) = Inr g))"

text \<open>
  A document can be read when \<open>from_dict\<close> does not raise on it. The store is well
  formed when no two documents share an identifier, which the unique index on
  \<open>stream_id\<close> ensures, and every document can be read.
\<close>

definition decodable :: "codec \<Rightarrow> doc \<Rightarrow> bool" where
  "decodable cd d = (case from_dict cd d 0 of Inl e \<Rightarrow> False | Inr s \<Rightarrow> True)"

definition store_ok :: "codec \<Rightarrow> store \<Rightarrow> bool" where
  "store_ok cd st = (distinct (map d_stream_id (docs st)) \<and> list_all (decodable cd) (docs st))"

text \<open>The identifiers of the dirty records of the dictionary, in its order.\<close>

definition dirty_ids :: "(string \<times> ChatStream) list \<Rightarrow> string list" where
  "dirty_ids strs = map (\<lambda>e. stream_id (snd e)) (filter (\<lambda>e. \<not> saved (snd e)) strs)"

text \<open>
  The dictionary is in step with the store when its keys are distinct, every record is
  stored under its own identifier, and every record that is marked saved is, as
  serialised, the first document the store holds under that identifier.
\<close>

definition entry_synced :: "codec \<Rightarrow> doc list \<Rightarrow> string \<times> ChatStream \<Rightarrow> bool" where
  "entry_synced cd ds e =
     (stream_id (snd e) = fst e
      \<and> (saved (snd e) \<longrightarrow>
           List.find (\<lambda>d. d_stream_id d = Some (fst e)) ds = Some (to_dict cd (snd e))))"

definition synced :: "codec \<Rightarrow> manager \<Rightarrow> bool" where
  "synced cd m =
     (distinct (map fst (streams m)) \<and> list_all (entry_synced cd (docs (db m))) (streams m))"

section \<open>Properties of the identity derivation\<close>

lemma length_md5_digest: "length (md5_digest bs) = 16"
  by (simp add: md5_digest_def Let_def le_bytes32_def split: prod.split)

lemma length_md5_hexdigest: "length (md5_hexdigest s) = 32"
proof -
  have "length (concat (map hex_byte xs)) = 2 * length xs" for xs
    by (induction xs) (simp_all add: hex_byte_def)
  then show ?thesis
    by (simp add: md5_hexdigest_def length_md5_digest)
qed

lemma hex_digit_in: "hex_digit n \<in> set ''0123456789abcdef''"
proof -
  have "unat (n AND 0x0f) \<le> unat (0x0f :: u8)"
    by (rule word_and_le1 [THEN word_le_nat_alt [THEN iffD1]])
  then have "unat (n AND 0x0f) < length ''0123456789abcdef''"
    by simp
  then show ?thesis
    unfolding hex_digit_def by (rule nth_mem)
qed

lemma md5_hexdigest_hex: "list_all (\<lambda>c. c \<in> set ''0123456789abcdef'') (md5_hexdigest s)"
proof -
  have "list_all (\<lambda>c. c \<in> set ''0123456789abcdef'') (concat (map hex_byte xs))" for xs
    by (induction xs) (simp_all add: hex_byte_def hex_digit_in del: set_simps)
  then show ?thesis
    by (simp add: md5_hexdigest_def)
qed

text \<open>The model agrees with the test suite of RFC 1321, here on one and on two blocks.\<close>

lemma md5_test_suite:
  "md5_hexdigest '''' = ''d41d8cd98f00b204e9800998ecf8427e''"
  "md5_hexdigest ''a'' = ''0cc175b9c0f1b6a831c399e269772661''"
  "md5_hexdigest ''abc'' = ''900150983cd24fb0d6963f7d28e17f72''"
  by code_simp+

lemma md5_qq_42_private:
  "md5_hexdigest ''qq_42_private'' = ''27701e99f5a472c7243eff0c8dae6aa0''"
  by code_simp

lemma py_str_42: "py_str (PInt 42) = ''42''"
  by code_simp

lemma md5_qq_42_7: "md5_hexdigest ''qq_42_7'' = ''a08fc9cad8904ef0b6040cf92cbf57a0''"
  by code_simp

lemma py_str_7: "py_str (PInt 7) = ''7''"
  by code_simp

lemma generate_stream_id_key:
  "generate_stream_id pf ui gi =
     md5_hexdigest (pf @ ''_'' @ py_str (user_id ui) @ ''_'' @
       (case gi of Some g \<Rightarrow> py_str (group_id g) | None \<Rightarrow> ''private''))"
  by (simp add: generate_stream_id_def Let_def)

text \<open>
  C3: the identifier is a function of the platform and of the user and group
  identifiers alone, namely the MD5 digest of the platform, the user identifier coerced
  to a string and the group identifier coerced to a string (the text \<open>private\<close> when
  there is no group), joined by \<open>_\<close>. It always has 32 characters, all of them
  lower-case hexadecimal digits. For the platform \<open>qq\<close>, the user 42 and no group it is
  the digest of \<open>qq_42_private\<close>.
\<close>

theorem generate_stream_id_deterministic_hash:
  "generate_stream_id pf ui gi =
     md5_hexdigest (pf @ ''_'' @ py_str (user_id ui) @ ''_'' @
       (case gi of Some g \<Rightarrow> py_str (group_id g) | None \<Rightarrow> ''private''))
   \<and> length (generate_stream_id pf ui gi) = 32
   \<and> list_all (\<lambda>c. c \<in> set ''0123456789abcdef'') (generate_stream_id pf ui gi)
   \<and> generate_stream_id ''qq'' \<lparr>user_id = PInt 42, user_nickname = nick\<rparr> None =
       md5_hexdigest ''qq_42_private''
   \<and> md5_hexdigest ''qq_42_private'' = ''27701e99f5a472c7243eff0c8dae6aa0''"
proof -
  have "generate_stream_id ''qq'' \<lparr>user_id = PInt 42, user_nickname = nick\<rparr> None =
          md5_hexdigest ''qq_42_private''"
    by (simp add: generate_stream_id_key py_str_42 del: py_str.simps)
  then show ?thesis
    using generate_stream_id_key [of pf ui gi] length_md5_hexdigest md5_hexdigest_hex
      md5_qq_42_private
    by (simp del: set_simps)
qed

lemma md5_qq_None_private:
  "md5_hexdigest ''qq_None_private'' = ''8de5a560a2b329ce8bd808150237067b''"
  by code_simp

text \<open>
  C7, as the code has it: the derivation validates nothing. A user description whose
  identifier is missing is coerced like any other value, to the text \<open>None\<close>, and the
  digest of the key built with it is returned; no error is signalled.
\<close>

theorem generate_stream_id_missing_user_id:
  "user_id ui = PNone \<Longrightarrow>
     generate_stream_id pf ui gi =
       md5_hexdigest (pf @ ''_None_'' @
         (case gi of Some g \<Rightarrow> py_str (group_id g) | None \<Rightarrow> ''private''))
     \<and> length (generate_stream_id pf ui gi) = 32"
  by (simp add: generate_stream_id_key length_md5_hexdigest)

theorem generate_stream_id_missing_user_id_witness:
  "user_id \<lparr>user_id = PNone, user_nickname = Some ''bob''\<rparr> = PNone
   \<and> generate_stream_id ''wx'' \<lparr>user_id = PNone, user_nickname = Some ''bob''\<rparr>
        (Some \<lparr>group_id = PStr ''g7'', group_name = None\<rparr>) = md5_hexdigest ''wx_None_g7''
   \<and> length (generate_stream_id ''wx'' \<lparr>user_id = PNone, user_nickname = Some ''bob''\<rparr>
        (Some \<lparr>group_id = PStr ''g7'', group_name = None\<rparr>)) = 32"
  using generate_stream_id_missing_user_id
    [of "\<lparr>user_id = PNone, user_nickname = Some ''bob''\<rparr>" "''wx''"
        "Some \<lparr>group_id = PStr ''g7'', group_name = None\<rparr>"]
  by (simp add: length_md5_hexdigest)

theorem generate_stream_id_missing_user_id_counterexample:
  "generate_stream_id ''qq'' \<lparr>user_id = PNone, user_nickname = None\<rparr> None =
     ''8de5a560a2b329ce8bd808150237067b''"
  by (simp add: generate_stream_id_key md5_qq_None_private)

section \<open>Persisting one record (\<open>_save_stream\<close>)\<close>

lemma save_stream_saved: "saved s \<Longrightarrow> save_stream cd st s = (st, Inr s)"
  by (simp add: save_stream_def)

lemma save_stream_written:
  "\<not> saved s \<Longrightarrow> \<not> write_fails st \<Longrightarrow>
     save_stream cd st s =
       (st\<lparr>events := events st @ [Update_one (stream_id s)],
           docs := upsert (stream_id s) (to_dict cd s) (docs st)\<rparr>,
        Inr (s\<lparr>saved := True\<rparr>))"
  by (simp add: save_stream_def update_one_def Let_def)

lemma save_stream_failed:
  "\<not> saved s \<Longrightarrow> write_fails st \<Longrightarrow>
     save_stream cd st s =
       (st\<lparr>events := events st @ [Update_one (stream_id s)]\<rparr>, Inl StoreError)"
  by (simp add: save_stream_def update_one_def Let_def)

lemma find_upsert_same:
  "d_stream_id d = Some sid \<Longrightarrow>
     List.find (\<lambda>x. d_stream_id x = Some sid) (upsert sid d ds) = Some d"
  by (induction ds) simp_all

lemma find_upsert_other:
  "d_stream_id d = Some sid \<Longrightarrow> sid' \<noteq> sid \<Longrightarrow>
     List.find (\<lambda>x. d_stream_id x = Some sid') (upsert sid d ds) =
     List.find (\<lambda>x. d_stream_id x = Some sid') ds"
  by (induction ds) simp_all

lemma upsert_idem:
  "d_stream_id d = Some sid \<Longrightarrow> upsert sid d (upsert sid d ds) = upsert sid d ds"
  by (induction ds) simp_all

lemma to_dict_stream_id [simp]: "d_stream_id (to_dict cd s) = Some (stream_id s)"
  by (simp add: to_dict_def)

text \<open>
  C6: saving a record that is not dirty changes nothing and issues no call to the
  store. Saving a dirty record issues exactly one \<open>update_one\<close>, keyed by the record's
  identifier; when the write succeeds the store holds the record's serialisation under
  that identifier, a second identical write would change no document, and only then
  the record is marked saved; when the write raises, the documents are unchanged and the
  record is not marked. A record is dirty when it is constructed and again after
  \<open>update_active_time\<close>.
\<close>

theorem save_stream_dirty_clean_cycle:
  "(saved s \<longrightarrow> save_stream cd st s = (st, Inr s))
   \<and> (\<not> saved s \<and> \<not> write_fails st \<longrightarrow>
        save_stream cd st s =
          (st\<lparr>events := events st @ [Update_one (stream_id s)],
              docs := upsert (stream_id s) (to_dict cd s) (docs st)\<rparr>,
           Inr (s\<lparr>saved := True\<rparr>))
        \<and> List.find (\<lambda>x. d_stream_id x = Some (stream_id s))
             (docs (fst (save_stream cd st s))) = Some (to_dict cd s)
        \<and> upsert (stream_id s) (to_dict cd s) (docs (fst (save_stream cd st s))) =
             docs (fst (save_stream cd st s)))
   \<and> (\<not> saved s \<and> write_fails st \<longrightarrow>
        save_stream cd st s =
          (st\<lparr>events := events st @ [Update_one (stream_id s)]\<rparr>, Inl StoreError))
   \<and> \<not> saved (ChatStream_init sid pf ui gi data now)
   \<and> \<not> saved (update_active_time s now)"
  by (simp add: save_stream_saved save_stream_written save_stream_failed find_upsert_same
      upsert_idem ChatStream_init_def update_active_time_def Let_def)

theorem save_stream_dirty_clean_cycle_witness:
  "saved stream_42_7
   \<and> save_stream example_codec store_42_7 stream_42_7 = (store_42_7, Inr stream_42_7)
   \<and> \<not> saved (update_active_time stream_42_7 200) \<and> \<not> write_fails empty_store
   \<and> save_stream example_codec empty_store (update_active_time stream_42_7 200) =
        (\<lparr>docs = [to_dict example_codec (update_active_time stream_42_7 200)],
          read_fails = False, write_fails = False,
          events = [Update_one (generate_stream_id ''qq'' user42 (Some group7))]\<rparr>,
         Inr (stream_42_7\<lparr>last_active_time := 200\<rparr>))
   \<and> write_fails (empty_store\<lparr>write_fails := True\<rparr>)
   \<and> save_stream example_codec (empty_store\<lparr>write_fails := True\<rparr>)
        (update_active_time stream_42_7 200) =
        (\<lparr>docs = [], read_fails = False, write_fails = True,
          events = [Update_one (generate_stream_id ''qq'' user42 (Some group7))]\<rparr>,
         Inl StoreError)"
  using save_stream_dirty_clean_cycle
          [where s = stream_42_7 and cd = example_codec and st = store_42_7]
        save_stream_dirty_clean_cycle
          [where s = "update_active_time stream_42_7 200" and cd = example_codec
             and st = empty_store]
        save_stream_dirty_clean_cycle
          [where s = "update_active_time stream_42_7 200" and cd = example_codec
             and st = "empty_store\<lparr>write_fails := True\<rparr>"]
  by (simp add: stream_42_7_def empty_store_def update_active_time_def)

section \<open>Lookup or creation (\<open>get_or_create_stream\<close>), path by path\<close>

lemma goc_hit:
  "map_of (streams m) (generate_stream_id pf ui gi) = Some s \<Longrightarrow>
     get_or_create_stream cd m pf ui gi t1 t2 =
       (m\<lparr>streams :=
            AList.update (generate_stream_id pf ui gi)
              (s\<lparr>user_info := Some ui,
                 group_info := (case gi of Some g \<Rightarrow> Some g | None \<Rightarrow> group_info s),
                 last_active_time := t1, saved := False\<rparr>)
              (streams m)\<rparr>,
        Inr (s\<lparr>user_info := Some ui,
               group_info := (case gi of Some g \<Rightarrow> Some g | None \<Rightarrow> group_info s),
               last_active_time := t1, saved := False\<rparr>))"
  by (cases gi) (simp_all add: get_or_create_stream_def Let_def update_active_time_def)

lemma goc_read_fails:
  "map_of (streams m) (generate_stream_id pf ui gi) = None \<Longrightarrow> read_fails (db m) \<Longrightarrow>
     get_or_create_stream cd m pf ui gi t1 t2 =
       (m\<lparr>db := (db m)\<lparr>events := events (db m) @ [Find_one (generate_stream_id pf ui gi)]\<rparr>\<rparr>,
        Inl StoreError)"
  by (simp add: get_or_create_stream_def Let_def find_one_def)

lemma saved_ChatStream_init [simp]: "\<not> saved (ChatStream_init sid pf ui gi data now)"
  by (simp add: ChatStream_init_def Let_def)

lemma stream_id_ChatStream_init [simp]:
  "stream_id (ChatStream_init sid pf ui gi data now) = sid"
  by (simp add: ChatStream_init_def Let_def)

lemma goc_create_write_fails:
  "map_of (streams m) (generate_stream_id pf ui gi) = None \<Longrightarrow> \<not> read_fails (db m) \<Longrightarrow>
   List.find (\<lambda>d. d_stream_id d = Some (generate_stream_id pf ui gi)) (docs (db m)) = None \<Longrightarrow>
   write_fails (db m) \<Longrightarrow>
     get_or_create_stream cd m pf ui gi t1 t2 =
       (m\<lparr>streams :=
            AList.update (generate_stream_id pf ui gi)
              (ChatStream_init (generate_stream_id pf ui gi) pf (Some ui) gi None t1) (streams m),
          db := (db m)\<lparr>events := events (db m) @
                   [Find_one (generate_stream_id pf ui gi),
                    Update_one (generate_stream_id pf ui gi)]\<rparr>\<rparr>,
        Inl StoreError)"
  by (simp add: get_or_create_stream_def Let_def find_one_def save_stream_def update_one_def)

lemma goc_create_written:
  "map_of (streams m) (generate_stream_id pf ui gi) = None \<Longrightarrow> \<not> read_fails (db m) \<Longrightarrow>
   List.find (\<lambda>d. d_stream_id d = Some (generate_stream_id pf ui gi)) (docs (db m)) = None \<Longrightarrow>
   \<not> write_fails (db m) \<Longrightarrow>
     get_or_create_stream cd m pf ui gi t1 t2 =
       (m\<lparr>streams :=
            AList.update (generate_stream_id pf ui gi)
              ((ChatStream_init (generate_stream_id pf ui gi) pf (Some ui) gi None t1)
                 \<lparr>saved := True\<rparr>) (streams m),
          db := (db m)\<lparr>events := events (db m) @
                   [Find_one (generate_stream_id pf ui gi),
                    Update_one (generate_stream_id pf ui gi)],
                 docs := upsert (generate_stream_id pf ui gi)
                   (to_dict cd (ChatStream_init (generate_stream_id pf ui gi) pf (Some ui) gi None t1))
                   (docs (db m))\<rparr>\<rparr>,
        Inr ((ChatStream_init (generate_stream_id pf ui gi) pf (Some ui) gi None t1)
               \<lparr>saved := True\<rparr>))"
  by (simp add: get_or_create_stream_def Let_def find_one_def save_stream_def update_one_def)

lemma from_dict_stream_id:
  "from_dict cd d now = Inr s \<Longrightarrow> d_stream_id d = Some (stream_id s)"
  by (auto simp add: from_dict_def split: sum.splits option.splits)

lemma from_dict_saved: "from_dict cd d now = Inr s \<Longrightarrow> \<not> saved s"
  by (auto simp add: from_dict_def split: sum.splits option.splits)

lemma from_dict_to_dict:
  "codec_ok cd s \<Longrightarrow> from_dict cd (to_dict cd s) t = Inr (s\<lparr>saved := False\<rparr>)"
  by (cases s)
    (auto simp add: codec_ok_def from_dict_def to_dict_def ChatStream_init_def Let_def
      split: option.splits)

lemma codec_ok_example: "codec_ok example_codec s"
  by (auto simp add: codec_ok_def example_codec_def nick_val_def val_nick_def
      split: option.splits)

lemma find_SomeD:
  "List.find P xs = Some x \<Longrightarrow> x \<in> set xs \<and> P x"
  by (auto simp add: find_Some_iff)

lemma goc_found_undecodable:
  "map_of (streams m) (generate_stream_id pf ui gi) = None \<Longrightarrow> \<not> read_fails (db m) \<Longrightarrow>
   List.find (\<lambda>d. d_stream_id d = Some (generate_stream_id pf ui gi)) (docs (db m)) = Some d \<Longrightarrow>
   from_dict cd d t1 = Inl e \<Longrightarrow>
     get_or_create_stream cd m pf ui gi t1 t2 =
       (m\<lparr>db := (db m)\<lparr>events := events (db m) @ [Find_one (generate_stream_id pf ui gi)]\<rparr>\<rparr>,
        Inl e)"
  by (simp add: get_or_create_stream_def Let_def find_one_def)

lemma goc_found_write_fails:
  "map_of (streams m) (generate_stream_id pf ui gi) = None \<Longrightarrow> \<not> read_fails (db m) \<Longrightarrow>
   List.find (\<lambda>d. d_stream_id d = Some (generate_stream_id pf ui gi)) (docs (db m)) = Some d \<Longrightarrow>
   from_dict cd d t1 = Inr s0 \<Longrightarrow> write_fails (db m) \<Longrightarrow>
     get_or_create_stream cd m pf ui gi t1 t2 =
       (m\<lparr>streams :=
            AList.update (generate_stream_id pf ui gi)
              (s0\<lparr>user_info := Some ui,
                  group_info := (case gi of Some g \<Rightarrow> Some g | None \<Rightarrow> group_info s0),
                  last_active_time := t2, saved := False\<rparr>) (streams m),
          db := (db m)\<lparr>events := events (db m) @
                   [Find_one (generate_stream_id pf ui gi),
                    Update_one (generate_stream_id pf ui gi)]\<rparr>\<rparr>,
        Inl StoreError)"
  by (cases gi)
    (auto simp add: get_or_create_stream_def Let_def find_one_def save_stream_def
      update_one_def update_active_time_def dest!: find_SomeD from_dict_stream_id)

lemma goc_found_written:
  "map_of (streams m) (generate_stream_id pf ui gi) = None \<Longrightarrow> \<not> read_fails (db m) \<Longrightarrow>
   List.find (\<lambda>d. d_stream_id d = Some (generate_stream_id pf ui gi)) (docs (db m)) = Some d \<Longrightarrow>
   from_dict cd d t1 = Inr s0 \<Longrightarrow> \<not> write_fails (db m) \<Longrightarrow>
     get_or_create_stream cd m pf ui gi t1 t2 =
       (m\<lparr>streams :=
            AList.update (generate_stream_id pf ui gi)
              (s0\<lparr>user_info := Some ui,
                  group_info := (case gi of Some g \<Rightarrow> Some g | None \<Rightarrow> group_info s0),
                  last_active_time := t2, saved := True\<rparr>) (streams m),
          db := (db m)\<lparr>events := events (db m) @
                   [Find_one (generate_stream_id pf ui gi),
                    Update_one (generate_stream_id pf ui gi)],
                 docs := upsert (generate_stream_id pf ui gi)
                   (to_dict cd
                      (s0\<lparr>user_info := Some ui,
                          group_info := (case gi of Some g \<Rightarrow> Some g | None \<Rightarrow> group_info s0),
                          last_active_time := t2, saved := False\<rparr>))
                   (docs (db m))\<rparr>\<rparr>,
        Inr (s0\<lparr>user_info := Some ui,
                group_info := (case gi of Some g \<Rightarrow> Some g | None \<Rightarrow> group_info s0),
                last_active_time := t2, saved := True\<rparr>))"
  by (cases gi)
    (auto simp add: get_or_create_stream_def Let_def find_one_def save_stream_def
      update_one_def update_active_time_def dest!: find_SomeD from_dict_stream_id)

text \<open>
  C1, as the code has it: when the derived identifier is in the dictionary, the user
  description is replaced, the group description is replaced only when one was given,
  the time of last activity becomes the clock reading, the record is marked dirty and
  returned, and its entry in the dictionary is that record. The store is left exactly
  as it was: no call is issued, least of all a write.
\<close>

theorem get_or_create_stream_cache_hit:
  "map_of (streams m) (generate_stream_id pf ui gi) = Some s \<Longrightarrow>
     snd (get_or_create_stream cd m pf ui gi t1 t2) =
       Inr (s\<lparr>user_info := Some ui,
              group_info := (case gi of Some g \<Rightarrow> Some g | None \<Rightarrow> group_info s),
              last_active_time := t1, saved := False\<rparr>)
     \<and> get_stream (fst (get_or_create_stream cd m pf ui gi t1 t2)) (generate_stream_id pf ui gi) =
         Some (s\<lparr>user_info := Some ui,
                 group_info := (case gi of Some g \<Rightarrow> Some g | None \<Rightarrow> group_info s),
                 last_active_time := t1, saved := False\<rparr>)
     \<and> db (fst (get_or_create_stream cd m pf ui gi t1 t2)) = db m"
  by (simp add: goc_hit get_stream_def update_conv')

lemma same_id_42: "generate_stream_id ''qq'' user42' gi = generate_stream_id ''qq'' user42 gi"
  by (simp add: generate_stream_id_key user42_def user42'_def)

theorem get_or_create_stream_cache_hit_witness:
  "map_of (streams manager_42_7) (generate_stream_id ''qq'' user42' (Some group7)) =
     Some stream_42_7
   \<and> snd (get_or_create_stream example_codec manager_42_7 ''qq'' user42' (Some group7) 200 0) =
       Inr (stream_42_7\<lparr>user_info := Some user42', last_active_time := 200, saved := False\<rparr>)
   \<and> db (fst (get_or_create_stream example_codec manager_42_7 ''qq'' user42' (Some group7) 200 0)) =
       store_42_7"
proof -
  have h: "map_of (streams manager_42_7) (generate_stream_id ''qq'' user42' (Some group7)) =
             Some stream_42_7"
    by (simp add: manager_42_7_def same_id_42)
  show ?thesis
    using h get_or_create_stream_cache_hit [OF h, of example_codec 200 0]
    by (simp add: manager_42_7_def stream_42_7_def)
qed

theorem get_or_create_stream_cache_hit_counterexample:
  "events (db (fst (get_or_create_stream example_codec manager_42_7 ''qq'' user42'
      (Some group7) 200 0))) = []
   \<and> docs (db (fst (get_or_create_stream example_codec manager_42_7 ''qq'' user42'
        (Some group7) 200 0))) = [to_dict example_codec stream_42_7]
   \<and> snd (get_or_create_stream example_codec manager_42_7 ''qq'' user42' (Some group7) 200 0) =
       Inr (stream_42_7\<lparr>user_info := Some user42', last_active_time := 200, saved := False\<rparr>)"
proof -
  have h: "map_of (streams manager_42_7) (generate_stream_id ''qq'' user42' (Some group7)) =
             Some stream_42_7"
    by (simp add: manager_42_7_def same_id_42)
  show ?thesis
    unfolding goc_hit [OF h]
    by (simp add: manager_42_7_def store_42_7_def stream_42_7_def)
qed

text \<open>
  C2, as the code has it: the call catches nothing. On a miss in memory, a read of the
  store that raises ends the call with that exception, and no record is created or
  entered in the dictionary. When the record is new, or has been read from the store,
  and the write raises, the call ends with that exception as well; the record has been
  entered in the dictionary before the write and stays there, dirty. Only a hit in
  memory cannot fail, since it issues no call to the store.
\<close>

theorem get_or_create_stream_store_failure:
  "(map_of (streams m) (generate_stream_id pf ui gi) = None \<and> read_fails (db m) \<longrightarrow>
      snd (get_or_create_stream cd m pf ui gi t1 t2) = Inl StoreError
      \<and> streams (fst (get_or_create_stream cd m pf ui gi t1 t2)) = streams m)
   \<and> (map_of (streams m) (generate_stream_id pf ui gi) = None \<and> \<not> read_fails (db m)
      \<and> List.find (\<lambda>d. d_stream_id d = Some (generate_stream_id pf ui gi)) (docs (db m)) = None
      \<and> write_fails (db m) \<longrightarrow>
      snd (get_or_create_stream cd m pf ui gi t1 t2) = Inl StoreError
      \<and> get_stream (fst (get_or_create_stream cd m pf ui gi t1 t2))
            (generate_stream_id pf ui gi) =
          Some (ChatStream_init (generate_stream_id pf ui gi) pf (Some ui) gi None t1)
      \<and> \<not> saved (ChatStream_init (generate_stream_id pf ui gi) pf (Some ui) gi None t1)
      \<and> docs (db (fst (get_or_create_stream cd m pf ui gi t1 t2))) = docs (db m))
   \<and> (map_of (streams m) (generate_stream_id pf ui gi) = None \<and> \<not> read_fails (db m)
      \<and> List.find (\<lambda>d. d_stream_id d = Some (generate_stream_id pf ui gi)) (docs (db m)) = Some d
      \<and> from_dict cd d t1 = Inr s0 \<and> write_fails (db m) \<longrightarrow>
      snd (get_or_create_stream cd m pf ui gi t1 t2) = Inl StoreError
      \<and> get_stream (fst (get_or_create_stream cd m pf ui gi t1 t2))
            (generate_stream_id pf ui gi) =
          Some (s0\<lparr>user_info := Some ui,
                  group_info := (case gi of Some g \<Rightarrow> Some g | None \<Rightarrow> group_info s0),
                  last_active_time := t2, saved := False\<rparr>)
      \<and> docs (db (fst (get_or_create_stream cd m pf ui gi t1 t2))) = docs (db m))
   \<and> (map_of (streams m) (generate_stream_id pf ui gi) \<noteq> None \<longrightarrow>
      (\<exists>r. snd (get_or_create_stream cd m pf ui gi t1 t2) = Inr r)
      \<and> db (fst (get_or_create_stream cd m pf ui gi t1 t2)) = db m)"
  by (auto simp add: goc_read_fails goc_create_write_fails goc_found_write_fails goc_hit
      get_stream_def update_conv')

theorem get_or_create_stream_store_failure_witness:
  "map_of (streams \<lparr>streams = [], db = empty_store\<lparr>read_fails := True\<rparr>\<rparr>)
      (generate_stream_id ''qq'' user42 None) = None
   \<and> read_fails (db \<lparr>streams = [], db = empty_store\<lparr>read_fails := True\<rparr>\<rparr>)
   \<and> snd (get_or_create_stream example_codec
        \<lparr>streams = [], db = empty_store\<lparr>read_fails := True\<rparr>\<rparr> ''qq'' user42 None 100 100) =
       Inl StoreError
   \<and> \<not> read_fails (db \<lparr>streams = [], db = empty_store\<lparr>write_fails := True\<rparr>\<rparr>)
   \<and> write_fails (db \<lparr>streams = [], db = empty_store\<lparr>write_fails := True\<rparr>\<rparr>)
   \<and> snd (get_or_create_stream example_codec
        \<lparr>streams = [], db = empty_store\<lparr>write_fails := True\<rparr>\<rparr> ''qq'' user42 None 100 100) =
       Inl StoreError
   \<and> map_of (streams manager_42_7) (generate_stream_id ''qq'' user42 (Some group7)) \<noteq> None
   \<and> (\<exists>r. snd (get_or_create_stream example_codec manager_42_7 ''qq'' user42 (Some group7)
          200 0) = Inr r)
   \<and> List.find (\<lambda>d. d_stream_id d = Some (generate_stream_id ''qq'' user42 (Some group7)))
        (docs (db \<lparr>streams = [], db = store_42_7\<lparr>write_fails := True\<rparr>\<rparr>)) =
       Some (to_dict example_codec stream_42_7)
   \<and> from_dict example_codec (to_dict example_codec stream_42_7) 200 =
       Inr (stream_42_7\<lparr>saved := False\<rparr>)
   \<and> snd (get_or_create_stream example_codec
        \<lparr>streams = [], db = store_42_7\<lparr>write_fails := True\<rparr>\<rparr> ''qq'' user42 (Some group7)
        200 250) = Inl StoreError"
  using get_or_create_stream_store_failure
          [where m = "\<lparr>streams = [], db = empty_store\<lparr>read_fails := True\<rparr>\<rparr>"
             and pf = "''qq''" and ui = user42 and gi = None and cd = example_codec
             and ?t1.0 = 100 and ?t2.0 = 100]
        get_or_create_stream_store_failure
          [where m = "\<lparr>streams = [], db = empty_store\<lparr>write_fails := True\<rparr>\<rparr>"
             and pf = "''qq''" and ui = user42 and gi = None and cd = example_codec
             and ?t1.0 = 100 and ?t2.0 = 100]
        get_or_create_stream_store_failure
          [where m = manager_42_7
             and pf = "''qq''" and ui = user42 and gi = "Some group7" and cd = example_codec
             and ?t1.0 = 200 and ?t2.0 = 0]
        get_or_create_stream_store_failure
          [where m = "\<lparr>streams = [], db = store_42_7\<lparr>write_fails := True\<rparr>\<rparr>"
             and pf = "''qq''" and ui = user42 and gi = "Some group7" and cd = example_codec
             and ?t1.0 = 200 and ?t2.0 = 250 and d = "to_dict example_codec stream_42_7"
             and ?s0.0 = "stream_42_7\<lparr>saved := False\<rparr>"]
  by (simp add: empty_store_def manager_42_7_def store_42_7_def from_dict_to_dict
      codec_ok_example stream_42_7_def)

theorem get_or_create_stream_store_failure_counterexample:
  "snd (get_or_create_stream example_codec
        \<lparr>streams = [], db = empty_store\<lparr>read_fails := True\<rparr>\<rparr> ''qq'' user42 None 100 100) =
     Inl StoreError
   \<and> snd (get_or_create_stream example_codec
        \<lparr>streams = [], db = empty_store\<lparr>write_fails := True\<rparr>\<rparr> ''qq'' user42 None 100 100) =
     Inl StoreError"
  by (simp add: goc_read_fails goc_create_write_fails empty_store_def)

section \<open>What a lookup leaves untouched\<close>

lemma goc_streams_shape:
  "streams (fst (get_or_create_stream cd m pf ui gi t1 t2)) = streams m
   \<or> (\<exists>v. streams (fst (get_or_create_stream cd m pf ui gi t1 t2)) =
          AList.update (generate_stream_id pf ui gi) v (streams m))"
  by (auto simp add: get_or_create_stream_def Let_def
      split: option.splits sum.splits prod.splits)

lemma goc_other_entries:
  "k \<noteq> generate_stream_id pf ui gi \<Longrightarrow>
     map_of (streams (fst (get_or_create_stream cd m pf ui gi t1 t2))) k = map_of (streams m) k"
  using goc_streams_shape [of cd m pf ui gi t1 t2]
  by (auto simp add: update_conv')

lemma goc_absent_group_kept:
  "map_of (streams m) k = Some s \<Longrightarrow>
     \<exists>s'. map_of (streams (fst (get_or_create_stream cd m pf ui None t1 t2))) k = Some s'
          \<and> group_info s' = group_info s"
proof (cases "k = generate_stream_id pf ui None")
  case True
  assume "map_of (streams m) k = Some s"
  with True show ?thesis
    by (simp add: goc_hit update_conv')
next
  case False
  assume "map_of (streams m) k = Some s"
  with False show ?thesis
    by (simp add: goc_other_entries)
qed

lemma goc_returned:
  "get_or_create_stream cd m pf ui gi t1 t2 = (m', Inr r) \<Longrightarrow>
     map_of (streams m') (generate_stream_id pf ui gi) = Some r
     \<and> user_info r = Some ui
     \<and> (case gi of Some g \<Rightarrow> group_info r = Some g | None \<Rightarrow> True)"
  by (auto simp add: get_or_create_stream_def Let_def update_conv' save_stream_def
      update_active_time_def ChatStream_init_def
      split: option.splits sum.splits prod.splits if_splits)

lemma goc_hit_absent_group:
  "map_of (streams m) (generate_stream_id pf ui None) = Some s \<Longrightarrow>
     get_or_create_stream cd m pf ui None t1 t2 =
       (m\<lparr>streams :=
            AList.update (generate_stream_id pf ui None)
              (s\<lparr>user_info := Some ui, last_active_time := t1, saved := False\<rparr>) (streams m)\<rparr>,
        Inr (s\<lparr>user_info := Some ui, last_active_time := t1, saved := False\<rparr>))"
  by (simp add: goc_hit)

lemma goc_found_absent_group:
  assumes "map_of (streams m) (generate_stream_id pf ui None) = None"
    and "\<not> read_fails (db m)"
    and "List.find (\<lambda>d. d_stream_id d = Some (generate_stream_id pf ui None)) (docs (db m)) =
           Some d"
    and "from_dict cd d t1 = Inr s0"
  shows "write_fails (db m) \<longrightarrow>
       snd (get_or_create_stream cd m pf ui None t1 t2) = Inl StoreError
       \<and> map_of (streams (fst (get_or_create_stream cd m pf ui None t1 t2)))
             (generate_stream_id pf ui None) =
           Some (s0\<lparr>user_info := Some ui, last_active_time := t2, saved := False\<rparr>)"
    and "\<not> write_fails (db m) \<longrightarrow>
       snd (get_or_create_stream cd m pf ui None t1 t2) =
         Inr (s0\<lparr>user_info := Some ui, last_active_time := t2, saved := True\<rparr>)
       \<and> map_of (streams (fst (get_or_create_stream cd m pf ui None t1 t2)))
             (generate_stream_id pf ui None) =
           Some (s0\<lparr>user_info := Some ui, last_active_time := t2, saved := True\<rparr>)
       \<and> List.find (\<lambda>d. d_stream_id d = Some (generate_stream_id pf ui None))
             (docs (db (fst (get_or_create_stream cd m pf ui None t1 t2)))) =
           Some (to_dict cd (s0\<lparr>user_info := Some ui, last_active_time := t2\<rparr>))"
proof -
  from assms(3) have "d_stream_id d = Some (generate_stream_id pf ui None)"
    by (auto dest: find_SomeD)
  with from_dict_stream_id [OF assms(4)] have id: "stream_id s0 = generate_stream_id pf ui None"
    by simp
  have same: "to_dict cd (s0\<lparr>user_info := Some ui, last_active_time := t2, saved := False\<rparr>) =
      to_dict cd (s0\<lparr>user_info := Some ui, last_active_time := t2\<rparr>)"
    by (simp add: to_dict_def)
  show "write_fails (db m) \<longrightarrow>
       snd (get_or_create_stream cd m pf ui None t1 t2) = Inl StoreError
       \<and> map_of (streams (fst (get_or_create_stream cd m pf ui None t1 t2)))
             (generate_stream_id pf ui None) =
           Some (s0\<lparr>user_info := Some ui, last_active_time := t2, saved := False\<rparr>)"
    by (simp add: goc_found_write_fails [OF assms] update_conv')
  show "\<not> write_fails (db m) \<longrightarrow>
       snd (get_or_create_stream cd m pf ui None t1 t2) =
         Inr (s0\<lparr>user_info := Some ui, last_active_time := t2, saved := True\<rparr>)
       \<and> map_of (streams (fst (get_or_create_stream cd m pf ui None t1 t2)))
             (generate_stream_id pf ui None) =
           Some (s0\<lparr>user_info := Some ui, last_active_time := t2, saved := True\<rparr>)
       \<and> List.find (\<lambda>d. d_stream_id d = Some (generate_stream_id pf ui None))
             (docs (db (fst (get_or_create_stream cd m pf ui None t1 t2)))) =
           Some (to_dict cd (s0\<lparr>user_info := Some ui, last_active_time := t2\<rparr>))"
    using id
    by (simp add: goc_found_written [OF assms] update_conv' find_upsert_same same)
qed

text \<open>
  C4: after a call with the group \<open>gA\<close> has returned a record, that record is in the
  dictionary with \<open>gA\<close> as its group. A following call for the same platform without
  a group, whatever it returns or raises, leaves that record in the dictionary with the
  group \<open>gA\<close>: when the call derives another identifier the record is the very same
  as before, and when it derives the same identifier the record is returned with only
  its user description, its time of last activity and its dirty mark changed. More
  generally a call without a group never removes the group of the record it reaches:
  a record found in the dictionary, and a record read from the store, is returned and
  kept in the dictionary with the group it had, and the document written back carries
  that group; the entries under all other identifiers are left as they were. Every
  record a call returns carries the user description that was passed.
\<close>

theorem group_attach_without_regression:
  assumes "get_or_create_stream cd m pf ui (Some gA) t1 t2 = (m1, Inr r1)"
    and "get_or_create_stream cd m1 pf ui' None t3 t4 = (m2, res)"
  shows "get_stream m1 (generate_stream_id pf ui (Some gA)) = Some r1
     \<and> group_info r1 = Some gA \<and> user_info r1 = Some ui
     \<and> (\<exists>s. get_stream m2 (generate_stream_id pf ui (Some gA)) = Some s
            \<and> group_info s = Some gA)
     \<and> (\<forall>r2. res = Inr r2 \<longrightarrow> user_info r2 = Some ui')
     \<and> (\<forall>s. get_stream m1 (generate_stream_id pf ui' None) = Some s \<longrightarrow>
            (\<exists>r2. res = Inr r2 \<and> group_info r2 = group_info s \<and> user_info r2 = Some ui'))
     \<and> (generate_stream_id pf ui' None \<noteq> generate_stream_id pf ui (Some gA) \<longrightarrow>
            get_stream m2 (generate_stream_id pf ui (Some gA)) = Some r1)
     \<and> (\<forall>k. k \<noteq> generate_stream_id pf ui' None \<longrightarrow> get_stream m2 k = get_stream m1 k)
     \<and> (\<forall>s. get_stream m1 (generate_stream_id pf ui' None) = Some s \<longrightarrow>
            res = Inr (s\<lparr>user_info := Some ui', last_active_time := t3, saved := False\<rparr>)
            \<and> get_stream m2 (generate_stream_id pf ui' None) =
                Some (s\<lparr>user_info := Some ui', last_active_time := t3, saved := False\<rparr>)
            \<and> db m2 = db m1)
     \<and> (\<forall>d s0. get_stream m1 (generate_stream_id pf ui' None) = None
            \<and> \<not> read_fails (db m1)
            \<and> List.find (\<lambda>d. d_stream_id d = Some (generate_stream_id pf ui' None))
                 (docs (db m1)) = Some d
            \<and> from_dict cd d t3 = Inr s0 \<longrightarrow>
            (write_fails (db m1) \<longrightarrow>
               res = Inl StoreError
               \<and> get_stream m2 (generate_stream_id pf ui' None) =
                   Some (s0\<lparr>user_info := Some ui', last_active_time := t4, saved := False\<rparr>))
            \<and> (\<not> write_fails (db m1) \<longrightarrow>
               res = Inr (s0\<lparr>user_info := Some ui', last_active_time := t4, saved := True\<rparr>)
               \<and> get_stream m2 (generate_stream_id pf ui' None) =
                   Some (s0\<lparr>user_info := Some ui', last_active_time := t4, saved := True\<rparr>)
               \<and> List.find (\<lambda>d. d_stream_id d = Some (generate_stream_id pf ui' None))
                     (docs (db m2)) =
                   Some (to_dict cd (s0\<lparr>user_info := Some ui', last_active_time := t4\<rparr>))))"
proof -
  let ?sidA = "generate_stream_id pf ui (Some gA)"
  let ?sid = "generate_stream_id pf ui' None"
  from assms(2) have m2: "m2 = fst (get_or_create_stream cd m1 pf ui' None t3 t4)"
    and res: "res = snd (get_or_create_stream cd m1 pf ui' None t3 t4)"
    by simp_all
  from goc_returned [OF assms(1)]
  have r1: "map_of (streams m1) ?sidA = Some r1"
    and g1: "group_info r1 = Some gA" and u1: "user_info r1 = Some ui"
    by simp_all
  from goc_absent_group_kept [OF r1, of cd pf ui' t3 t4] g1
  have kept: "\<exists>s. get_stream m2 ?sidA = Some s \<and> group_info s = Some gA"
    by (simp add: get_stream_def m2)
  have user: "\<forall>r2. res = Inr r2 \<longrightarrow> user_info r2 = Some ui'"
    using goc_returned [of cd m1 pf ui' None t3 t4 m2] assms(2) by simp
  have hit: "\<forall>s. get_stream m1 ?sid = Some s \<longrightarrow>
            res = Inr (s\<lparr>user_info := Some ui', last_active_time := t3, saved := False\<rparr>)
            \<and> get_stream m2 ?sid =
                Some (s\<lparr>user_info := Some ui', last_active_time := t3, saved := False\<rparr>)
            \<and> db m2 = db m1"
    by (simp add: get_stream_def m2 res goc_hit_absent_group update_conv')
  then have hit': "\<forall>s. get_stream m1 ?sid = Some s \<longrightarrow>
            (\<exists>r2. res = Inr r2 \<and> group_info r2 = group_info s \<and> user_info r2 = Some ui')"
    by simp
  have frame: "?sid \<noteq> ?sidA \<longrightarrow> get_stream m2 ?sidA = Some r1"
    using r1 by (simp add: get_stream_def m2 goc_other_entries)
  have found: "\<forall>d s0. get_stream m1 ?sid = None \<and> \<not> read_fails (db m1)
            \<and> List.find (\<lambda>d. d_stream_id d = Some ?sid) (docs (db m1)) = Some d
            \<and> from_dict cd d t3 = Inr s0 \<longrightarrow>
            (write_fails (db m1) \<longrightarrow>
               res = Inl StoreError
               \<and> get_stream m2 ?sid =
                   Some (s0\<lparr>user_info := Some ui', last_active_time := t4, saved := False\<rparr>))
            \<and> (\<not> write_fails (db m1) \<longrightarrow>
               res = Inr (s0\<lparr>user_info := Some ui', last_active_time := t4, saved := True\<rparr>)
               \<and> get_stream m2 ?sid =
                   Some (s0\<lparr>user_info := Some ui', last_active_time := t4, saved := True\<rparr>)
               \<and> List.find (\<lambda>d. d_stream_id d = Some ?sid) (docs (db m2)) =
                   Some (to_dict cd (s0\<lparr>user_info := Some ui', last_active_time := t4\<rparr>)))"
  proof (intro allI impI, elim conjE)
    fix d s0
    assume a: "get_stream m1 ?sid = None" "\<not> read_fails (db m1)"
      "List.find (\<lambda>d. d_stream_id d = Some ?sid) (docs (db m1)) = Some d"
      "from_dict cd d t3 = Inr s0"
    from a(1) have miss: "map_of (streams m1) ?sid = None"
      by (simp add: get_stream_def)
    from goc_found_absent_group [OF miss a(2,3,4), of t4]
    show "(write_fails (db m1) \<longrightarrow>
               res = Inl StoreError
               \<and> get_stream m2 ?sid =
                   Some (s0\<lparr>user_info := Some ui', last_active_time := t4, saved := False\<rparr>))
            \<and> (\<not> write_fails (db m1) \<longrightarrow>
               res = Inr (s0\<lparr>user_info := Some ui', last_active_time := t4, saved := True\<rparr>)
               \<and> get_stream m2 ?sid =
                   Some (s0\<lparr>user_info := Some ui', last_active_time := t4, saved := True\<rparr>)
               \<and> List.find (\<lambda>d. d_stream_id d = Some ?sid) (docs (db m2)) =
                   Some (to_dict cd (s0\<lparr>user_info := Some ui', last_active_time := t4\<rparr>)))"
      by (simp add: get_stream_def m2 res)
  qed
  have others: "\<forall>k. k \<noteq> ?sid \<longrightarrow> get_stream m2 k = get_stream m1 k"
    by (simp add: get_stream_def m2 goc_other_entries)
  have first: "get_stream m1 ?sidA = Some r1"
    using r1 by (simp add: get_stream_def)
  from first g1 u1 kept user hit' frame others hit found show ?thesis
    by (intro conjI)
qed

lemma example_first_call:
  "get_or_create_stream example_codec \<lparr>streams = [], db = empty_store\<rparr> ''qq'' user42
      (Some group7) 100 100 =
     (manager_42_7\<lparr>db := store_42_7\<lparr>events :=
         [Find_one (generate_stream_id ''qq'' user42 (Some group7)),
          Update_one (generate_stream_id ''qq'' user42 (Some group7))]\<rparr>\<rparr>,
      Inr stream_42_7)"
  by (simp add: goc_create_written empty_store_def manager_42_7_def store_42_7_def
      stream_42_7_def ChatStream_init_def to_dict_def)

lemma same_id_private:
  "generate_stream_id ''qq'' user42' None = generate_stream_id ''qq'' user42 (Some group_private)"
  by (simp add: generate_stream_id_key user42_def user42'_def group_private_def)

lemma ids_differ_42:
  "generate_stream_id ''qq'' user42 (Some group7) \<noteq> generate_stream_id ''qq'' user42' None"
  by (simp add: generate_stream_id_key user42_def user42'_def group7_def py_str_42 py_str_7
      md5_qq_42_7 md5_qq_42_private del: py_str.simps)

theorem group_attach_without_regression_witness:
  "get_or_create_stream example_codec \<lparr>streams = [], db = store_42_private\<rparr> ''qq'' user42
      (Some group7) 100 100 =
     (\<lparr>streams = [(generate_stream_id ''qq'' user42 (Some group7), stream_42_7)],
       db = store_42_private
         \<lparr>events := [Find_one (generate_stream_id ''qq'' user42 (Some group7)),
                      Update_one (generate_stream_id ''qq'' user42 (Some group7))],
          docs := [to_dict example_codec stream_42_private,
                   to_dict example_codec stream_42_7]\<rparr>\<rparr>,
      Inr stream_42_7)
   \<and> generate_stream_id ''qq'' user42' None \<noteq> generate_stream_id ''qq'' user42 (Some group7)
   \<and> get_stream
       (fst (get_or_create_stream example_codec
          \<lparr>streams = [(generate_stream_id ''qq'' user42 (Some group7), stream_42_7)],
           db = store_42_private
             \<lparr>events := [Find_one (generate_stream_id ''qq'' user42 (Some group7)),
                          Update_one (generate_stream_id ''qq'' user42 (Some group7))],
              docs := [to_dict example_codec stream_42_private,
                       to_dict example_codec stream_42_7]\<rparr>\<rparr>
          ''qq'' user42' None 200 250))
       (generate_stream_id ''qq'' user42 (Some group7)) = Some stream_42_7
   \<and> group_info stream_42_7 = Some group7
   \<and> snd (get_or_create_stream example_codec
        \<lparr>streams = [(generate_stream_id ''qq'' user42 (Some group7), stream_42_7)],
         db = store_42_private
           \<lparr>events := [Find_one (generate_stream_id ''qq'' user42 (Some group7)),
                        Update_one (generate_stream_id ''qq'' user42 (Some group7))],
            docs := [to_dict example_codec stream_42_private,
                     to_dict example_codec stream_42_7]\<rparr>\<rparr>
        ''qq'' user42' None 200 250) =
       Inr (stream_42_private\<lparr>user_info := Some user42', last_active_time := 250\<rparr>)
   \<and> group_info (stream_42_private\<lparr>user_info := Some user42', last_active_time := 250\<rparr>) =
       Some group_private
   \<and> snd (get_or_create_stream example_codec \<lparr>streams = [], db = empty_store\<rparr> ''qq'' user42
        (Some group_private) 100 100) =
       Inr ((ChatStream_init (generate_stream_id ''qq'' user42 (Some group_private)) ''qq''
              (Some user42) (Some group_private) None 100)\<lparr>saved := True\<rparr>)
   \<and> generate_stream_id ''qq'' user42' None =
       generate_stream_id ''qq'' user42 (Some group_private)
   \<and> snd (get_or_create_stream example_codec
        (fst (get_or_create_stream example_codec \<lparr>streams = [], db = empty_store\<rparr> ''qq''
           user42 (Some group_private) 100 100))
        ''qq'' user42' None 200 200) =
       Inr ((ChatStream_init (generate_stream_id ''qq'' user42 (Some group_private)) ''qq''
              (Some user42) (Some group_private) None 100)
              \<lparr>user_info := Some user42', last_active_time := 200, saved := False\<rparr>)
   \<and> group_info
       ((ChatStream_init (generate_stream_id ''qq'' user42 (Some group_private)) ''qq''
           (Some user42) (Some group_private) None 100)
           \<lparr>user_info := Some user42', last_active_time := 200, saved := False\<rparr>) =
       Some group_private"
proof -
  let ?sid7 = "generate_stream_id ''qq'' user42 (Some group7)"
  let ?sid = "generate_stream_id ''qq'' user42' None"
  let ?m0 = "\<lparr>streams = [], db = store_42_private\<rparr>"
  let ?m1 = "\<lparr>streams = [(?sid7, stream_42_7)],
       db = store_42_private
         \<lparr>events := [Find_one ?sid7, Update_one ?sid7],
          docs := [to_dict example_codec stream_42_private,
                   to_dict example_codec stream_42_7]\<rparr>\<rparr>"
  let ?c2 = "get_or_create_stream example_codec ?m1 ''qq'' user42' None 200 250"
  have differ: "?sid \<noteq> ?sid7"
    using ids_differ_42 by simp
  have differ': "generate_stream_id ''qq'' user42 (Some group_private) \<noteq> ?sid7"
    using differ by (simp add: same_id_private)
  have absent: "List.find (\<lambda>d. d_stream_id d = Some ?sid7) (docs (db ?m0)) = None"
    using differ' by (simp add: store_42_private_def stream_42_private_def)
  have h1: "get_or_create_stream example_codec ?m0 ''qq'' user42 (Some group7) 100 100 =
      (?m1, Inr stream_42_7)"
    using absent
    by (simp add: goc_create_written store_42_private_def stream_42_7_def ChatStream_init_def
        to_dict_def stream_42_private_def differ')
  have h2: "?c2 = (fst ?c2, snd ?c2)"
    by simp
  note t = group_attach_without_regression [OF h1 h2]
  have miss: "get_stream ?m1 ?sid = None"
    using differ by (simp add: get_stream_def)
  have readable: "\<not> read_fails (db ?m1)" and writable: "\<not> write_fails (db ?m1)"
    by (simp_all add: store_42_private_def)
  have found: "List.find (\<lambda>d. d_stream_id d = Some ?sid) (docs (db ?m1)) =
      Some (to_dict example_codec stream_42_private)"
    by (simp add: same_id_private stream_42_private_def)
  have dec: "from_dict example_codec (to_dict example_codec stream_42_private) 200 =
      Inr (stream_42_private\<lparr>saved := False\<rparr>)"
    by (simp add: from_dict_to_dict codec_ok_example)
  from t differ have frame: "get_stream (fst ?c2) ?sid7 = Some stream_42_7"
    by blast
  from t have "\<forall>d s0. get_stream ?m1 ?sid = None \<and> \<not> read_fails (db ?m1)
      \<and> List.find (\<lambda>d. d_stream_id d = Some ?sid) (docs (db ?m1)) = Some d
      \<and> from_dict example_codec d 200 = Inr s0 \<longrightarrow>
      (\<not> write_fails (db ?m1) \<longrightarrow>
         snd ?c2 = Inr (s0\<lparr>user_info := Some user42', last_active_time := 250, saved := True\<rparr>))"
    by blast
  from this [rule_format, OF conjI [OF miss conjI [OF readable conjI [OF found dec]]] writable]
  have hit_store: "snd ?c2 =
      Inr (stream_42_private\<lparr>user_info := Some user42', last_active_time := 250\<rparr>)"
    by (simp add: stream_42_private_def)
  let ?p1 = "get_or_create_stream example_codec \<lparr>streams = [], db = empty_store\<rparr> ''qq''
               user42 (Some group_private) 100 100"
  let ?r1 = "(ChatStream_init (generate_stream_id ''qq'' user42 (Some group_private)) ''qq''
              (Some user42) (Some group_private) None 100)\<lparr>saved := True\<rparr>"
  let ?p2 = "get_or_create_stream example_codec (fst ?p1) ''qq'' user42' None 200 200"
  have p1: "snd ?p1 = Inr ?r1"
    by (simp add: goc_create_written empty_store_def)
  then have k1: "?p1 = (fst ?p1, Inr ?r1)"
    by (simp add: prod_eq_iff)
  have k2: "?p2 = (fst ?p2, snd ?p2)"
    by simp
  note u = group_attach_without_regression [OF k1 k2]
  from u have "get_stream (fst ?p1) (generate_stream_id ''qq'' user42 (Some group_private)) =
      Some ?r1"
    by (rule conjunct1)
  then have A: "get_stream (fst ?p1) ?sid = Some ?r1"
    by (simp add: same_id_private)
  from u have "\<forall>s. get_stream (fst ?p1) ?sid = Some s \<longrightarrow>
      snd ?p2 = Inr (s\<lparr>user_info := Some user42', last_active_time := 200, saved := False\<rparr>)"
    by blast
  from this [rule_format, OF A]
  have hit_mem: "snd ?p2 =
      Inr ((ChatStream_init (generate_stream_id ''qq'' user42 (Some group_private)) ''qq''
              (Some user42) (Some group_private) None 100)
              \<lparr>user_info := Some user42', last_active_time := 200, saved := False\<rparr>)"
    by simp
  have g: "group_info stream_42_7 = Some group7"
    "group_info (stream_42_private\<lparr>user_info := Some user42', last_active_time := 250\<rparr>) =
       Some group_private"
    "group_info
       ((ChatStream_init (generate_stream_id ''qq'' user42 (Some group_private)) ''qq''
           (Some user42) (Some group_private) None 100)
           \<lparr>user_info := Some user42', last_active_time := 200, saved := False\<rparr>) =
       Some group_private"
    by (simp_all add: stream_42_7_def stream_42_private_def ChatStream_init_def)
  from h1 differ frame g hit_store p1 same_id_private hit_mem show ?thesis
    by (intro conjI)
qed

section \<open>The order of the times is an invariant\<close>

lemma record_times_ok_mono: "record_times_ok T s \<Longrightarrow> T \<le> T' \<Longrightarrow> record_times_ok T' s"
  by (simp add: record_times_ok_def)

lemma doc_times_ok_mono: "doc_times_ok T d \<Longrightarrow> T \<le> T' \<Longrightarrow> doc_times_ok T' d"
  by (auto simp add: doc_times_ok_def split: option.splits)

lemma times_ok_mono: "times_ok T m \<Longrightarrow> T \<le> T' \<Longrightarrow> times_ok T' m"
  by (auto simp add: times_ok_def list_all_iff
      intro: record_times_ok_mono doc_times_ok_mono)

lemma list_all_update:
  "list_all P al \<Longrightarrow> P (k, v) \<Longrightarrow> list_all P (AList.update k v al)"
  by (induction al) auto

lemma list_all_upsert: "list_all P ds \<Longrightarrow> P d \<Longrightarrow> list_all P (upsert sid d ds)"
  by (induction ds) auto

lemma from_dict_times:
  "doc_times_ok T d \<Longrightarrow> from_dict cd d now = Inr s \<Longrightarrow>
     record_times_ok T s \<and> d_create_time d = Some (create_time s)
     \<and> d_last_active_time d = Some (last_active_time s)"
  by (auto simp add: from_dict_def doc_times_ok_def record_times_ok_def ChatStream_init_def
      Let_def split: sum.splits option.splits)

lemma to_dict_times: "record_times_ok T s \<Longrightarrow> doc_times_ok T (to_dict cd s)"
  by (simp add: to_dict_def doc_times_ok_def record_times_ok_def)

lemma times_okI:
  "list_all (\<lambda>e. record_times_ok T (snd e)) strs \<Longrightarrow> list_all (doc_times_ok T) ds \<Longrightarrow>
   streams m = strs \<Longrightarrow> docs (db m) = ds \<Longrightarrow> times_ok T m"
  by (simp add: times_ok_def)

lemma goc_times_ok:
  assumes ok: "times_ok T m" and t1: "T \<le> t1" and t2: "t1 \<le> t2"
  shows "times_ok t2 (fst (get_or_create_stream cd m pf ui gi t1 t2))"
proof -
  let ?sid = "generate_stream_id pf ui gi"
  from ok t1 t2 have ok2: "times_ok t2 m"
    by (auto intro: times_ok_mono)
  then have strs: "list_all (\<lambda>e. record_times_ok t2 (snd e)) (streams m)"
    and ds: "list_all (doc_times_ok t2) (docs (db m))"
    by (simp_all add: times_ok_def)
  show ?thesis
  proof (cases "map_of (streams m) ?sid")
    case (Some s)
    then have "(?sid, s) \<in> set (streams m)"
      by (rule map_of_SomeD)
    with ok have "record_times_ok T s"
      by (auto simp add: times_ok_def list_all_iff)
    with t1 t2 have "record_times_ok t2
        (s\<lparr>user_info := Some ui,
           group_info := (case gi of Some g \<Rightarrow> Some g | None \<Rightarrow> group_info s),
           last_active_time := t1, saved := False\<rparr>)"
      by (simp add: record_times_ok_def)
    with strs ds show ?thesis
      by (simp add: goc_hit [OF Some] times_ok_def list_all_update)
  next
    case None
    show ?thesis
    proof (cases "read_fails (db m)")
      case True
      with None ok2 show ?thesis
        by (simp add: goc_read_fails times_ok_def)
    next
      case False
      note readable = this
      show ?thesis
      proof (cases "List.find (\<lambda>d. d_stream_id d = Some ?sid) (docs (db m))")
        case absent: None
        have new: "record_times_ok t2 (ChatStream_init ?sid pf (Some ui) gi None t1)"
          using t2 by (simp add: record_times_ok_def ChatStream_init_def)
        then have new': "record_times_ok t2
            ((ChatStream_init ?sid pf (Some ui) gi None t1)\<lparr>saved := True\<rparr>)"
          by (simp add: record_times_ok_def)
        show ?thesis
        proof (cases "write_fails (db m)")
          case True
          with None readable absent strs ds new show ?thesis
            by (simp add: goc_create_write_fails times_ok_def list_all_update)
        next
          case False
          with None readable absent strs ds new new' show ?thesis
            by (simp add: goc_create_written times_ok_def list_all_update list_all_upsert
                to_dict_times)
        qed
      next
        case (Some d)
        then have "d \<in> set (docs (db m))"
          by (auto dest: find_SomeD)
        with ok have dok: "doc_times_ok T d"
          by (auto simp add: times_ok_def list_all_iff)
        show ?thesis
        proof (cases "from_dict cd d t1")
          case (Inl e)
          with None readable Some ok2 show ?thesis
            by (simp add: goc_found_undecodable times_ok_def)
        next
          case (Inr s0)
          with dok have "record_times_ok T s0"
            by (auto dest: from_dict_times)
          with t1 t2 have new: "record_times_ok t2
              (s0\<lparr>user_info := Some ui,
                  group_info := (case gi of Some g \<Rightarrow> Some g | None \<Rightarrow> group_info s0),
                  last_active_time := t2, saved := b\<rparr>)" for b
            by (simp add: record_times_ok_def)
          show ?thesis
          proof (cases "write_fails (db m)")
            case True
            with None readable Some Inr strs ds new show ?thesis
              by (simp add: goc_found_write_fails times_ok_def list_all_update)
          next
            case False
            with None readable Some Inr strs ds new show ?thesis
              by (simp add: goc_found_written times_ok_def list_all_update list_all_upsert
                  to_dict_times)
          qed
        qed
      qed
    qed
  qed
qed

lemma save_stream_times:
  "list_all (doc_times_ok T) (docs st) \<Longrightarrow> record_times_ok T s \<Longrightarrow>
     list_all (doc_times_ok T) (docs (fst (save_stream cd st s)))
     \<and> (case snd (save_stream cd st s) of Inl e \<Rightarrow> True | Inr s' \<Rightarrow> record_times_ok T s')"
  by (auto simp add: save_stream_def update_one_def Let_def list_all_upsert to_dict_times
      record_times_ok_def)

lemma save_streams_times:
  "list_all (\<lambda>e. record_times_ok T (snd e)) strs \<Longrightarrow> list_all (doc_times_ok T) (docs st) \<Longrightarrow>
     list_all (\<lambda>e. record_times_ok T (snd e)) (fst (save_streams cd strs st))
     \<and> list_all (doc_times_ok T) (docs (fst (snd (save_streams cd strs st))))"
proof (induction strs arbitrary: st)
  case Nil
  then show ?case by simp
next
  case (Cons e strs)
  obtain k s where e: "e = (k, s)"
    by (cases e)
  obtain st' r where sv: "save_stream cd st s = (st', r)"
    by (cases "save_stream cd st s")
  from Cons.prems e have s: "record_times_ok T s"
    and rest: "list_all (\<lambda>e. record_times_ok T (snd e)) strs"
    by simp_all
  from save_stream_times [OF Cons.prems(2) s, of cd] sv
  have st': "list_all (doc_times_ok T) (docs st')"
    and r: "case r of Inl e \<Rightarrow> True | Inr s' \<Rightarrow> record_times_ok T s'"
    by simp_all
  show ?case
  proof (cases r)
    case (Inl err)
    with e sv s rest st' show ?thesis by simp
  next
    case (Inr s')
    with r have "record_times_ok T s'" by simp
    with e sv Inr Cons.IH [OF rest st'] show ?thesis
      by (simp add: case_prod_beta)
  qed
qed

lemma save_all_times_ok: "times_ok T m \<Longrightarrow> times_ok T (fst (save_all_streams cd m))"
  using save_streams_times [of T "streams m" "db m" cd]
  by (simp add: times_ok_def save_all_streams_def case_prod_beta)

lemma load_docs_times:
  "list_all (doc_times_ok T) ds \<Longrightarrow> list_all (\<lambda>e. record_times_ok T (snd e)) strs \<Longrightarrow>
     list_all (\<lambda>e. record_times_ok T (snd e)) (fst (load_docs cd clock k ds strs))"
proof (induction ds arbitrary: k strs)
  case Nil
  then show ?case by simp
next
  case (Cons d ds)
  show ?case
  proof (cases "from_dict cd d (clock k)")
    case (Inl e)
    with Cons.prems show ?thesis by simp
  next
    case (Inr s)
    with Cons.prems have "record_times_ok T s"
      by (auto dest: from_dict_times)
    with Cons.prems
    have "list_all (\<lambda>e. record_times_ok T (snd e)) (AList.update (stream_id s) s strs)"
      by (simp add: list_all_update)
    with Cons.prems Inr Cons.IH [of "AList.update (stream_id s) s strs" "Suc k"]
    show ?thesis by simp
  qed
qed

lemma load_all_times_ok: "times_ok T m \<Longrightarrow> times_ok T (fst (load_all_streams cd m clock))"
  using load_docs_times [of T "docs (db m)" "streams m" cd clock 0]
  by (simp add: times_ok_def load_all_streams_def find_all_def Let_def case_prod_beta)

lemma run_times_ok:
  "times_ok T m \<Longrightarrow> clock_ok T cs \<Longrightarrow> times_ok (final_time T cs) (run cd m cs)"
proof (induction cs arbitrary: T m)
  case Nil
  then show ?case by (simp add: run_def)
next
  case (Cons c cs)
  show ?case
  proof (cases c)
    case (Get_or_create pf ui gi t1 t2)
    with Cons.prems have "times_ok t2 (step cd m c)" and "clock_ok t2 cs"
      by (simp_all add: goc_times_ok)
    from Cons.IH [OF this] Get_or_create show ?thesis
      by (simp add: run_def)
  next
    case Save_all
    with Cons.prems have "times_ok T (step cd m c)" and "clock_ok T cs"
      by (simp_all add: save_all_times_ok)
    from Cons.IH [OF this] Save_all show ?thesis
      by (simp add: run_def)
  next
    case (Load_all clock)
    with Cons.prems have "times_ok T (step cd m c)" and "clock_ok T cs"
      by (simp_all add: load_all_times_ok)
    from Cons.IH [OF this] Load_all show ?thesis
      by (simp add: run_def)
  next
    case (Faults fr fw)
    with Cons.prems have "times_ok T (step cd m c)" and "clock_ok T cs"
      by (simp_all add: times_ok_def)
    from Cons.IH [OF this] Faults show ?thesis
      by (simp add: run_def)
  qed
qed

lemma times_ok_init:
  "list_all (doc_times_ok T) (docs st) \<Longrightarrow> times_ok T (ChatManager_init st)"
  by (simp add: times_ok_def ChatManager_init_def)

lemma times_ok_entry:
  "times_ok T m \<Longrightarrow> map_of (streams m) k = Some s \<Longrightarrow> record_times_ok T s"
  by (auto simp add: times_ok_def list_all_iff dest!: map_of_SomeD)

lemma times_ok_doc:
  "times_ok T m \<Longrightarrow> List.find P (docs (db m)) = Some d \<Longrightarrow> doc_times_ok T d"
  by (auto simp add: times_ok_def list_all_iff dest!: find_SomeD)

lemma goc_hit_times:
  assumes "times_ok T m" and "T \<le> t1"
    and "map_of (streams m) (generate_stream_id pf ui gi) = Some s"
    and "snd (get_or_create_stream cd m pf ui gi t1 t2) = Inr r"
  shows "last_active_time s \<le> last_active_time r \<and> create_time r = create_time s
     \<and> stream_id r = stream_id s"
proof -
  from assms(1,3) have "record_times_ok T s"
    by (rule times_ok_entry)
  with assms(2,4) show ?thesis
    by (auto simp add: goc_hit [OF assms(3)] record_times_ok_def)
qed

lemma goc_found_times:
  assumes ok: "times_ok T m" and t1: "T \<le> t1" and t2: "t1 \<le> t2"
    and miss: "map_of (streams m) (generate_stream_id pf ui gi) = None"
    and found: "List.find (\<lambda>d. d_stream_id d = Some (generate_stream_id pf ui gi))
                  (docs (db m)) = Some d"
    and res: "snd (get_or_create_stream cd m pf ui gi t1 t2) = Inr r"
  shows "d_create_time d = Some (create_time r) \<and> d_stream_id d = Some (stream_id r)
     \<and> (\<exists>l. d_last_active_time d = Some l \<and> l \<le> last_active_time r)"
proof -
  from ok found have dok: "doc_times_ok T d"
    by (rule times_ok_doc)
  have readable: "\<not> read_fails (db m)"
    using res by (auto simp add: goc_read_fails [OF miss])
  obtain s0 where s0: "from_dict cd d t1 = Inr s0"
    using res by (cases "from_dict cd d t1")
      (auto simp add: goc_found_undecodable [OF miss readable found])
  have writable: "\<not> write_fails (db m)"
    using res by (auto simp add: goc_found_write_fails [OF miss readable found s0])
  from from_dict_times [OF dok s0] from_dict_stream_id [OF s0] t1 t2 res
  show ?thesis
    by (auto simp add: goc_found_written [OF miss readable found s0 writable]
        record_times_ok_def)
qed

text \<open>
  C5: take a manager started on a store whose documents have their times in order, and
  any run of calls during which the clock never goes back. Then every record of the
  dictionary has its creation time not after its time of last activity. A further lookup
  at a later clock reading that returns a record which was in the dictionary leaves its
  creation time and its identifier as they were and does not decrease its time of last
  activity; one that returns a record read from the store keeps the creation time and
  the identifier of the stored document and does not go below its time of last activity.
\<close>

theorem liveness_monotonicity:
  assumes "list_all (doc_times_ok T0) (docs st)"
    and "clock_ok T0 cs"
    and "final_time T0 cs \<le> t1" and "t1 \<le> t2"
  shows "(\<forall>k s. get_stream (run cd (ChatManager_init st) cs) k = Some s \<longrightarrow>
            create_time s \<le> last_active_time s)
     \<and> (\<forall>s r. get_stream (run cd (ChatManager_init st) cs) (generate_stream_id pf ui gi) = Some s
            \<and> snd (get_or_create_stream cd (run cd (ChatManager_init st) cs) pf ui gi t1 t2) = Inr r
          \<longrightarrow> last_active_time s \<le> last_active_time r \<and> create_time r = create_time s
              \<and> stream_id r = stream_id s)
     \<and> (\<forall>d r. get_stream (run cd (ChatManager_init st) cs) (generate_stream_id pf ui gi) = None
            \<and> List.find (\<lambda>d. d_stream_id d = Some (generate_stream_id pf ui gi))
                 (docs (db (run cd (ChatManager_init st) cs))) = Some d
            \<and> snd (get_or_create_stream cd (run cd (ChatManager_init st) cs) pf ui gi t1 t2) = Inr r
          \<longrightarrow> d_create_time d = Some (create_time r) \<and> d_stream_id d = Some (stream_id r)
              \<and> (\<exists>l. d_last_active_time d = Some l \<and> l \<le> last_active_time r))
     \<and> (\<forall>k s. get_stream
            (fst (get_or_create_stream cd (run cd (ChatManager_init st) cs) pf ui gi t1 t2)) k = Some s
          \<longrightarrow> create_time s \<le> last_active_time s)"
proof -
  let ?m = "run cd (ChatManager_init st) cs"
  have ok: "times_ok (final_time T0 cs) ?m"
    using assms(1,2) by (intro run_times_ok times_ok_init)
  have a: "\<forall>k s. get_stream ?m k = Some s \<longrightarrow> create_time s \<le> last_active_time s"
    using times_ok_entry [OF ok] by (auto simp add: get_stream_def record_times_ok_def)
  have b: "\<forall>s r. get_stream ?m (generate_stream_id pf ui gi) = Some s
            \<and> snd (get_or_create_stream cd ?m pf ui gi t1 t2) = Inr r
          \<longrightarrow> last_active_time s \<le> last_active_time r \<and> create_time r = create_time s
              \<and> stream_id r = stream_id s"
  proof (intro allI impI)
    fix s r
    assume "get_stream ?m (generate_stream_id pf ui gi) = Some s
            \<and> snd (get_or_create_stream cd ?m pf ui gi t1 t2) = Inr r"
    then have "map_of (streams ?m) (generate_stream_id pf ui gi) = Some s"
      and "snd (get_or_create_stream cd ?m pf ui gi t1 t2) = Inr r"
      by (simp_all add: get_stream_def)
    then show "last_active_time s \<le> last_active_time r \<and> create_time r = create_time s
              \<and> stream_id r = stream_id s"
      by (rule goc_hit_times [OF ok assms(3)])
  qed
  have c: "\<forall>d r. get_stream ?m (generate_stream_id pf ui gi) = None
            \<and> List.find (\<lambda>d. d_stream_id d = Some (generate_stream_id pf ui gi))
                 (docs (db ?m)) = Some d
            \<and> snd (get_or_create_stream cd ?m pf ui gi t1 t2) = Inr r
          \<longrightarrow> d_create_time d = Some (create_time r) \<and> d_stream_id d = Some (stream_id r)
              \<and> (\<exists>l. d_last_active_time d = Some l \<and> l \<le> last_active_time r)"
  proof (intro allI impI)
    fix d r
    assume "get_stream ?m (generate_stream_id pf ui gi) = None
            \<and> List.find (\<lambda>d. d_stream_id d = Some (generate_stream_id pf ui gi))
                 (docs (db ?m)) = Some d
            \<and> snd (get_or_create_stream cd ?m pf ui gi t1 t2) = Inr r"
    then have "map_of (streams ?m) (generate_stream_id pf ui gi) = None"
      and "List.find (\<lambda>d. d_stream_id d = Some (generate_stream_id pf ui gi))
                 (docs (db ?m)) = Some d"
      and "snd (get_or_create_stream cd ?m pf ui gi t1 t2) = Inr r"
      by (simp_all add: get_stream_def)
    then show "d_create_time d = Some (create_time r) \<and> d_stream_id d = Some (stream_id r)
              \<and> (\<exists>l. d_last_active_time d = Some l \<and> l \<le> last_active_time r)"
      by (rule goc_found_times [OF ok assms(3,4)])
  qed
  have "times_ok t2 (fst (get_or_create_stream cd ?m pf ui gi t1 t2))"
    using ok assms(3,4) by (rule goc_times_ok)
  then have d: "\<forall>k s. get_stream (fst (get_or_create_stream cd ?m pf ui gi t1 t2)) k = Some s
          \<longrightarrow> create_time s \<le> last_active_time s"
    by (auto simp add: get_stream_def record_times_ok_def dest: times_ok_entry)
  from a b c d show ?thesis
    by blast
qed

theorem liveness_monotonicity_witness:
  "list_all (doc_times_ok 0) (docs empty_store)
   \<and> clock_ok 0 [Get_or_create ''qq'' user42 (Some group7) 100 100]
   \<and> final_time 0 [Get_or_create ''qq'' user42 (Some group7) 100 100] \<le> 200
   \<and> get_stream (run example_codec (ChatManager_init empty_store)
        [Get_or_create ''qq'' user42 (Some group7) 100 100])
        (generate_stream_id ''qq'' user42' (Some group7)) = Some stream_42_7
   \<and> snd (get_or_create_stream example_codec
        (run example_codec (ChatManager_init empty_store)
           [Get_or_create ''qq'' user42 (Some group7) 100 100])
        ''qq'' user42' (Some group7) 200 200) =
       Inr (stream_42_7\<lparr>user_info := Some user42', last_active_time := 200, saved := False\<rparr>)
   \<and> create_time stream_42_7 \<le> last_active_time stream_42_7
   \<and> last_active_time stream_42_7 \<le>
       last_active_time
         (stream_42_7\<lparr>user_info := Some user42', last_active_time := 200, saved := False\<rparr>)
   \<and> create_time
         (stream_42_7\<lparr>user_info := Some user42', last_active_time := 200, saved := False\<rparr>) =
       create_time stream_42_7
   \<and> list_all (doc_times_ok 100) (docs store_42_7)
   \<and> get_stream (run example_codec (ChatManager_init store_42_7) [])
        (generate_stream_id ''qq'' user42' (Some group7)) = None
   \<and> snd (get_or_create_stream example_codec
        (run example_codec (ChatManager_init store_42_7) []) ''qq'' user42' (Some group7)
        200 250) =
       Inr (stream_42_7\<lparr>user_info := Some user42', last_active_time := 250\<rparr>)
   \<and> d_create_time (to_dict example_codec stream_42_7) =
       Some (create_time (stream_42_7\<lparr>user_info := Some user42', last_active_time := 250\<rparr>))
   \<and> (\<exists>l. d_last_active_time (to_dict example_codec stream_42_7) = Some l
          \<and> l \<le> last_active_time
                (stream_42_7\<lparr>user_info := Some user42', last_active_time := 250\<rparr>))"
proof -
  let ?cs = "[Get_or_create ''qq'' user42 (Some group7) 100 100]"
  let ?m = "run example_codec (ChatManager_init empty_store) ?cs"
  have h1: "list_all (doc_times_ok 0) (docs empty_store)"
    by (simp add: empty_store_def)
  have h2: "clock_ok 0 ?cs"
    by simp
  have h3: "final_time 0 ?cs \<le> 200"
    by simp
  have h4: "(200::int) \<le> 200"
    by simp
  have m: "?m = manager_42_7\<lparr>db := store_42_7\<lparr>events :=
         [Find_one (generate_stream_id ''qq'' user42 (Some group7)),
          Update_one (generate_stream_id ''qq'' user42 (Some group7))]\<rparr>\<rparr>"
    by (simp add: run_def ChatManager_init_def example_first_call)
  have g: "get_stream ?m (generate_stream_id ''qq'' user42' (Some group7)) = Some stream_42_7"
    unfolding m by (simp add: get_stream_def manager_42_7_def same_id_42)
  then have hit: "map_of (streams ?m) (generate_stream_id ''qq'' user42' (Some group7)) =
      Some stream_42_7"
    by (simp add: get_stream_def)
  have r: "snd (get_or_create_stream example_codec ?m ''qq'' user42' (Some group7) 200 200) =
       Inr (stream_42_7\<lparr>user_info := Some user42', last_active_time := 200, saved := False\<rparr>)"
    unfolding goc_hit [OF hit] by (simp add: stream_42_7_def)
  let ?n = "run example_codec (ChatManager_init store_42_7) []"
  let ?d = "to_dict example_codec stream_42_7"
  have n: "?n = \<lparr>streams = [], db = store_42_7\<rparr>"
    by (simp add: run_def ChatManager_init_def)
  have k1: "list_all (doc_times_ok 100) (docs store_42_7)"
    by (simp add: store_42_7_def doc_times_ok_def to_dict_def stream_42_7_def)
  have k2: "clock_ok 100 []" and k3: "final_time 100 [] \<le> 200" and k4: "(200::int) \<le> 250"
    by simp_all
  have miss: "map_of (streams ?n) (generate_stream_id ''qq'' user42' (Some group7)) = None"
    by (simp add: n)
  have readable: "\<not> read_fails (db ?n)" and writable: "\<not> write_fails (db ?n)"
    unfolding n by (simp_all add: store_42_7_def)
  have found: "List.find (\<lambda>d. d_stream_id d = Some (generate_stream_id ''qq'' user42' (Some group7)))
      (docs (db ?n)) = Some ?d"
    unfolding n by (simp add: store_42_7_def same_id_42 stream_42_7_def)
  have dec: "from_dict example_codec ?d 200 = Inr (stream_42_7\<lparr>saved := False\<rparr>)"
    by (simp add: from_dict_to_dict codec_ok_example)
  have r2: "snd (get_or_create_stream example_codec ?n ''qq'' user42' (Some group7) 200 250) =
       Inr (stream_42_7\<lparr>user_info := Some user42', last_active_time := 250\<rparr>)"
    unfolding goc_found_written [OF miss readable found dec writable]
    by (simp add: stream_42_7_def)
  note t1 = liveness_monotonicity [OF h1 h2 h3 h4, of example_codec "''qq''" user42'
      "Some group7"]
  note t2 = liveness_monotonicity [OF k1 k2 k3 k4, of example_codec "''qq''" user42'
      "Some group7"]
  from t1 g r have a: "create_time stream_42_7 \<le> last_active_time stream_42_7
   \<and> last_active_time stream_42_7 \<le>
       last_active_time
         (stream_42_7\<lparr>user_info := Some user42', last_active_time := 200, saved := False\<rparr>)
   \<and> create_time
         (stream_42_7\<lparr>user_info := Some user42', last_active_time := 200, saved := False\<rparr>) =
       create_time stream_42_7"
    by blast
  from miss have miss': "get_stream ?n (generate_stream_id ''qq'' user42' (Some group7)) = None"
    by (simp add: get_stream_def)
  from t2 miss' found r2
  have b: "d_create_time ?d =
       Some (create_time (stream_42_7\<lparr>user_info := Some user42', last_active_time := 250\<rparr>))
   \<and> (\<exists>l. d_last_active_time ?d = Some l
          \<and> l \<le> last_active_time
                (stream_42_7\<lparr>user_info := Some user42', last_active_time := 250\<rparr>))"
    by blast
  from h1 h2 h3 g r a k1 miss' r2 b show ?thesis
    by blast
qed

section \<open>Hydration (\<open>load_all_streams\<close>)\<close>

lemma from_dict_time_indep: "from_dict cd d t = Inl e \<Longrightarrow> from_dict cd d t' = Inl e"
  by (auto simp add: from_dict_def split: sum.splits option.splits if_splits)

lemma decodableD: "decodable cd d \<Longrightarrow> \<exists>s. from_dict cd d t = Inr s"
proof (cases "from_dict cd d t")
  case (Inl e)
  assume "decodable cd d"
  with from_dict_time_indep [OF Inl, of 0] show ?thesis
    by (simp add: decodable_def)
next
  case (Inr s)
  then show ?thesis by simp
qed

lemma load_docs_succeeds:
  "list_all (decodable cd) ds \<Longrightarrow> snd (load_docs cd clock k ds strs) = Inr ()"
proof (induction ds arbitrary: k strs)
  case Nil
  then show ?case by simp
next
  case (Cons d ds)
  from Cons.prems obtain s where "from_dict cd d (clock k) = Inr s"
    using decodableD [of cd d "clock k"] by auto
  with Cons show ?case by simp
qed

lemma load_docs_untouched:
  "Some sid \<notin> set (map d_stream_id ds) \<Longrightarrow>
     map_of (fst (load_docs cd clock k ds strs)) sid = map_of strs sid"
proof (induction ds arbitrary: k strs)
  case Nil
  then show ?case by simp
next
  case (Cons d ds)
  show ?case
  proof (cases "from_dict cd d (clock k)")
    case (Inl e)
    then show ?thesis by simp
  next
    case (Inr s)
    with Cons.prems have "stream_id s \<noteq> sid"
      by (auto dest: from_dict_stream_id)
    with Cons Inr show ?thesis
      by (simp add: update_conv')
  qed
qed

lemma load_docs_entry:
  "snd (load_docs cd clock k ds strs) = Inr u \<Longrightarrow> Some sid \<in> set (map d_stream_id ds) \<Longrightarrow>
     \<exists>d t s. d \<in> set ds \<and> d_stream_id d = Some sid \<and> from_dict cd d t = Inr s
             \<and> map_of (fst (load_docs cd clock k ds strs)) sid = Some s"
proof (induction ds arbitrary: k strs)
  case Nil
  then show ?case by simp
next
  case (Cons x ds)
  from Cons.prems(1) obtain sx where sx: "from_dict cd x (clock k) = Inr sx"
    by (cases "from_dict cd x (clock k)") simp_all
  let ?strs = "AList.update (stream_id sx) sx strs"
  have unfold: "load_docs cd clock k (x # ds) strs = load_docs cd clock (Suc k) ds ?strs"
    using sx by simp
  show ?case
  proof (cases "Some sid \<in> set (map d_stream_id ds)")
    case True
    have "snd (load_docs cd clock (Suc k) ds ?strs) = Inr u"
      using Cons.prems(1) unfolding unfold .
    from Cons.IH [OF this True] show ?thesis
      unfolding unfold by auto
  next
    case False
    with Cons.prems(2) have x: "d_stream_id x = Some sid"
      by auto
    with from_dict_stream_id [OF sx] have "stream_id sx = sid"
      by simp
    with load_docs_untouched [OF False, of cd clock "Suc k" ?strs]
    have "map_of (fst (load_docs cd clock (Suc k) ds ?strs)) sid = Some sx"
      by (simp add: update_conv')
    with x sx show ?thesis
      unfolding unfold by auto
  qed
qed

lemma load_docs_entry_distinct:
  assumes "snd (load_docs cd clock k ds strs) = Inr u"
    and "d \<in> set ds" and "d_stream_id d = Some sid"
    and "distinct (map d_stream_id ds)"
  shows "\<exists>t s. from_dict cd d t = Inr s
           \<and> map_of (fst (load_docs cd clock k ds strs)) sid = Some s"
proof -
  from assms(2,3) have "Some sid \<in> set (map d_stream_id ds)"
    by force
  from load_docs_entry [OF assms(1) this]
  obtain d' t s where d': "d' \<in> set ds" "d_stream_id d' = Some sid"
    and s: "from_dict cd d' t = Inr s"
      "map_of (fst (load_docs cd clock k ds strs)) sid = Some s"
    by blast
  from assms(4) have inj: "inj_on d_stream_id (set ds)"
    by (rule distinct_map [THEN iffD1, THEN conjunct2])
  have "d_stream_id d' = d_stream_id d"
    using d'(2) assms(3) by simp
  with inj have "d' = d"
    using d'(1) assms(2) by (rule inj_onD)
  with s show ?thesis
    by blast
qed

lemma load_all_streams_read:
  "\<not> read_fails (db m) \<Longrightarrow>
     load_all_streams cd m clock =
       (m\<lparr>streams := fst (load_docs cd clock 0 (docs (db m)) (streams m)),
          db := (db m)\<lparr>events := events (db m) @ [Find_all]\<rparr>\<rparr>,
        snd (load_docs cd clock 0 (docs (db m)) (streams m)))"
  by (simp add: load_all_streams_def find_all_def Let_def case_prod_beta)

lemma load_all_streams_read_fails:
  "read_fails (db m) \<Longrightarrow>
     load_all_streams cd m clock =
       (m\<lparr>db := (db m)\<lparr>events := events (db m) @ [Find_all]\<rparr>\<rparr>, Inl StoreError)"
  by (simp add: load_all_streams_def find_all_def Let_def)

section \<open>The flush (\<open>_save_all_streams\<close>)\<close>

lemma save_streams_written:
  "\<not> write_fails st \<Longrightarrow>
     snd (snd (save_streams cd strs st)) = Inr ()
     \<and> events (fst (snd (save_streams cd strs st))) =
         events st @ map Update_one (dirty_ids strs)
     \<and> list_all (\<lambda>e. saved (snd e)) (fst (save_streams cd strs st))
     \<and> map fst (fst (save_streams cd strs st)) = map fst strs"
proof (induction strs arbitrary: st)
  case Nil
  then show ?case by (simp add: dirty_ids_def)
next
  case (Cons e strs)
  obtain k s where e: "e = (k, s)"
    by (cases e)
  show ?case
  proof (cases "saved s")
    case True
    with Cons e show ?thesis
      by (simp add: save_stream_saved dirty_ids_def case_prod_beta)
  next
    case False
    let ?st = "st\<lparr>events := events st @ [Update_one (stream_id s)],
                   docs := upsert (stream_id s) (to_dict cd s) (docs st)\<rparr>"
    have "\<not> write_fails ?st"
      using Cons.prems by simp
    from Cons.IH [OF this] False Cons.prems e show ?thesis
      by (simp add: save_stream_written dirty_ids_def case_prod_beta)
  qed
qed

lemma load_all_streams_done:
  assumes "load_all_streams cd m clock = (m', Inr u)"
  shows "\<not> read_fails (db m)"
    and "streams m' = fst (load_docs cd clock 0 (docs (db m)) (streams m))"
    and "snd (load_docs cd clock 0 (docs (db m)) (streams m)) = Inr u"
    and "db m' = (db m)\<lparr>events := events (db m) @ [Find_all]\<rparr>"
proof -
  show r: "\<not> read_fails (db m)"
    using assms by (auto simp add: load_all_streams_read_fails)
  from assms show "streams m' = fst (load_docs cd clock 0 (docs (db m)) (streams m))"
    and "snd (load_docs cd clock 0 (docs (db m)) (streams m)) = Inr u"
    and "db m' = (db m)\<lparr>events := events (db m) @ [Find_all]\<rparr>"
    by (auto simp add: load_all_streams_read [OF r])
qed

text \<open>
  C10: when hydration has run to its end, the dictionary holds, under every identifier
  that occurs in the store, a record read from a stored document with that identifier,
  whatever it held there before; with one document per identifier it is the record read
  from that document. Only the entries under identifiers that do not occur in the store
  are the ones the dictionary had before.
\<close>

theorem load_all_streams_overwrites:
  assumes "load_all_streams cd m clock = (m', Inr u)"
  shows "(\<forall>sid. Some sid \<in> set (map d_stream_id (docs (db m))) \<longrightarrow>
            (\<exists>d t s. d \<in> set (docs (db m)) \<and> d_stream_id d = Some sid
               \<and> from_dict cd d t = Inr s \<and> get_stream m' sid = Some s))
     \<and> (\<forall>d sid. distinct (map d_stream_id (docs (db m))) \<and> d \<in> set (docs (db m))
            \<and> d_stream_id d = Some sid \<longrightarrow>
            (\<exists>t s. from_dict cd d t = Inr s \<and> get_stream m' sid = Some s))
     \<and> (\<forall>sid. Some sid \<notin> set (map d_stream_id (docs (db m))) \<longrightarrow>
            get_stream m' sid = get_stream m sid)"
proof -
  note ld = load_all_streams_done [OF assms]
  have a: "\<forall>sid. Some sid \<in> set (map d_stream_id (docs (db m))) \<longrightarrow>
            (\<exists>d t s. d \<in> set (docs (db m)) \<and> d_stream_id d = Some sid
               \<and> from_dict cd d t = Inr s \<and> get_stream m' sid = Some s)"
    using load_docs_entry [OF ld(3)] by (simp add: get_stream_def ld(2))
  have b: "\<forall>d sid. distinct (map d_stream_id (docs (db m))) \<and> d \<in> set (docs (db m))
            \<and> d_stream_id d = Some sid \<longrightarrow>
            (\<exists>t s. from_dict cd d t = Inr s \<and> get_stream m' sid = Some s)"
    using load_docs_entry_distinct [OF ld(3)] by (simp add: get_stream_def ld(2))
  have c: "\<forall>sid. Some sid \<notin> set (map d_stream_id (docs (db m))) \<longrightarrow>
            get_stream m' sid = get_stream m sid"
    using load_docs_untouched [of _ "docs (db m)" cd clock 0 "streams m"]
    by (simp add: get_stream_def ld(2))
  from a b c show ?thesis
    by blast
qed

section \<open>The round trip through the store\<close>

lemma to_dict_saved [simp]: "to_dict cd (s\<lparr>saved := b\<rparr>) = to_dict cd s"
  by (simp add: to_dict_def)

lemma decodable_to_dict: "codec_ok cd s \<Longrightarrow> decodable cd (to_dict cd s)"
  by (simp add: decodable_def from_dict_to_dict)

lemma stream_id_42_7 [simp]:
  "stream_id stream_42_7 = generate_stream_id ''qq'' user42 (Some group7)"
  "stream_id stream_42_7_active = generate_stream_id ''qq'' user42 (Some group7)"
  by (simp_all add: stream_42_7_def stream_42_7_active_def)

lemma example_active:
  "fst (get_or_create_stream example_codec manager_42_7 ''qq'' user42' (Some group7) 200 0) =
     manager_42_7_active"
proof -
  have h: "map_of (streams manager_42_7) (generate_stream_id ''qq'' user42' (Some group7)) =
             Some stream_42_7"
    by (simp add: manager_42_7_def same_id_42)
  show ?thesis
    unfolding goc_hit [OF h]
    by (simp add: manager_42_7_def manager_42_7_active_def stream_42_7_active_def
        stream_42_7_def same_id_42)
qed

theorem load_all_streams_overwrites_witness:
  "fst (get_or_create_stream example_codec manager_42_7 ''qq'' user42' (Some group7) 200 0) =
     manager_42_7_active
   \<and> get_stream manager_42_7_active (generate_stream_id ''qq'' user42 (Some group7)) =
       Some stream_42_7_active
   \<and> last_active_time stream_42_7_active = 200
   \<and> snd (load_all_streams example_codec manager_42_7_active (\<lambda>k. 300)) = Inr ()
   \<and> get_stream (fst (load_all_streams example_codec manager_42_7_active (\<lambda>k. 300)))
        (generate_stream_id ''qq'' user42 (Some group7)) =
       Some (stream_42_7\<lparr>saved := False\<rparr>)
   \<and> last_active_time (stream_42_7\<lparr>saved := False\<rparr>) = 100"
proof -
  let ?sid = "generate_stream_id ''qq'' user42 (Some group7)"
  let ?m' = "fst (load_all_streams example_codec manager_42_7_active (\<lambda>k. 300))"
  have ok: "snd (load_all_streams example_codec manager_42_7_active (\<lambda>k. 300)) = Inr ()"
    by (simp add: load_all_streams_read manager_42_7_active_def store_42_7_def
        from_dict_to_dict codec_ok_example)
  then have h: "load_all_streams example_codec manager_42_7_active (\<lambda>k. 300) = (?m', Inr ())"
    by (simp add: prod_eq_iff)
  have d: "distinct (map d_stream_id (docs (db manager_42_7_active)))
       \<and> to_dict example_codec stream_42_7 \<in> set (docs (db manager_42_7_active))
       \<and> d_stream_id (to_dict example_codec stream_42_7) = Some ?sid"
    by (simp add: manager_42_7_active_def store_42_7_def)
  from load_all_streams_overwrites [OF h] d
  obtain t s where "from_dict example_codec (to_dict example_codec stream_42_7) t = Inr s"
    and "get_stream ?m' ?sid = Some s"
    by blast
  then have "get_stream ?m' ?sid = Some (stream_42_7\<lparr>saved := False\<rparr>)"
    by (simp add: from_dict_to_dict codec_ok_example)
  with ok show ?thesis
    by (simp add: example_active get_stream_def manager_42_7_active_def stream_42_7_active_def
        stream_42_7_def)
qed

section \<open>Hydrated records are dirty\<close>

lemma load_docs_all_dirty:
  "list_all (\<lambda>e. \<not> saved (snd e) \<and> stream_id (snd e) = fst e) strs \<Longrightarrow>
     list_all (\<lambda>e. \<not> saved (snd e) \<and> stream_id (snd e) = fst e)
       (fst (load_docs cd clock k ds strs))"
proof (induction ds arbitrary: k strs)
  case Nil
  then show ?case by simp
next
  case (Cons d ds)
  show ?case
  proof (cases "from_dict cd d (clock k)")
    case (Inl e)
    with Cons.prems show ?thesis by simp
  next
    case (Inr s)
    with Cons.prems
    have "list_all (\<lambda>e. \<not> saved (snd e) \<and> stream_id (snd e) = fst e)
            (AList.update (stream_id s) s strs)"
      by (simp add: list_all_update from_dict_saved)
    from Cons.IH [OF this] Inr show ?thesis by simp
  qed
qed

lemma dirty_ids_all:
  "list_all (\<lambda>e. \<not> saved (snd e) \<and> stream_id (snd e) = fst e) strs \<Longrightarrow>
     dirty_ids strs = map fst strs"
  by (induction strs) (auto simp add: dirty_ids_def)

lemma dirty_ids_member:
  "map_of strs k = Some s \<Longrightarrow> \<not> saved s \<Longrightarrow> stream_id s = k \<Longrightarrow> k \<in> set (dirty_ids strs)"
  by (force simp add: dirty_ids_def dest!: map_of_SomeD)

lemma save_all_streams_written:
  "\<not> write_fails (db m) \<Longrightarrow>
     snd (save_all_streams cd m) = Inr ()
     \<and> events (db (fst (save_all_streams cd m))) =
         events (db m) @ map Update_one (dirty_ids (streams m))
     \<and> list_all (\<lambda>e. saved (snd e)) (streams (fst (save_all_streams cd m)))"
  using save_streams_written [of "db m" cd "streams m"]
  by (simp add: save_all_streams_def case_prod_beta)

text \<open>
  C9: every construction of a record leaves it dirty, also the one \<open>from_dict\<close> makes
  from a stored document. So when hydration has run to its end, the dictionary holds a
  dirty record under every identifier of the store, and the next flush, when the store
  accepts writes, issues one \<open>update_one\<close> for each dirty record of the dictionary, the
  hydrated ones among them; after a hydration into an empty dictionary these are all its
  entries. What such a write sends is the document the record was read from, when that
  document had been written by \<open>to_dict\<close> with descriptions that serialise faithfully.
\<close>

theorem hydrated_records_are_dirty:
  assumes "load_all_streams cd m clock = (m', Inr u)" and "\<not> write_fails (db m')"
  shows "\<not> saved (ChatStream_init sid pf ui gi data now)
     \<and> (\<forall>d t s. from_dict cd d t = Inr s \<longrightarrow> \<not> saved s)
     \<and> (\<forall>k. Some k \<in> set (map d_stream_id (docs (db m))) \<longrightarrow>
            (\<exists>s. get_stream m' k = Some s \<and> \<not> saved s \<and> stream_id s = k)
            \<and> k \<in> set (dirty_ids (streams m')))
     \<and> snd (save_all_streams cd m') = Inr ()
     \<and> events (db (fst (save_all_streams cd m'))) =
         events (db m') @ map Update_one (dirty_ids (streams m'))
     \<and> (streams m = [] \<longrightarrow> dirty_ids (streams m') = map fst (streams m'))
     \<and> (\<forall>s0 t s. codec_ok cd s0 \<and> from_dict cd (to_dict cd s0) t = Inr s \<longrightarrow>
            to_dict cd s = to_dict cd s0)"
proof -
  note ld = load_all_streams_done [OF assms(1)]
  have a: "\<forall>d t s. from_dict cd d t = Inr s \<longrightarrow> \<not> saved s"
    by (auto dest: from_dict_saved)
  have b: "\<forall>k. Some k \<in> set (map d_stream_id (docs (db m))) \<longrightarrow>
            (\<exists>s. get_stream m' k = Some s \<and> \<not> saved s \<and> stream_id s = k)
            \<and> k \<in> set (dirty_ids (streams m'))"
  proof (intro allI impI)
    fix k
    assume "Some k \<in> set (map d_stream_id (docs (db m)))"
    from load_docs_entry [OF ld(3) this]
    obtain d t s where d: "d_stream_id d = Some k" and s: "from_dict cd d t = Inr s"
      and e: "map_of (streams m') k = Some s"
      by (auto simp add: ld(2))
    from from_dict_stream_id [OF s] d have id: "stream_id s = k"
      by simp
    from from_dict_saved [OF s] have dirty: "\<not> saved s" .
    from e dirty id dirty_ids_member [OF e dirty id]
    show "(\<exists>s. get_stream m' k = Some s \<and> \<not> saved s \<and> stream_id s = k)
            \<and> k \<in> set (dirty_ids (streams m'))"
      by (simp add: get_stream_def)
  qed
  note flush = save_all_streams_written [OF assms(2), of cd]
  have c: "streams m = [] \<longrightarrow> dirty_ids (streams m') = map fst (streams m')"
  proof
    assume "streams m = []"
    then have "list_all (\<lambda>e. \<not> saved (snd e) \<and> stream_id (snd e) = fst e) (streams m)"
      by simp
    from load_docs_all_dirty [OF this, of cd clock 0 "docs (db m)"]
    show "dirty_ids (streams m') = map fst (streams m')"
      by (simp add: ld(2) dirty_ids_all)
  qed
  have d: "\<forall>s0 t s. codec_ok cd s0 \<and> from_dict cd (to_dict cd s0) t = Inr s \<longrightarrow>
            to_dict cd s = to_dict cd s0"
    by (auto simp add: from_dict_to_dict)
  from a b c d flush show ?thesis
    by simp
qed

theorem hydrated_records_are_dirty_witness:
  "load_all_streams example_codec (ChatManager_init store_42_7) (\<lambda>k. 300) =
     (\<lparr>streams = [(generate_stream_id ''qq'' user42 (Some group7), stream_42_7\<lparr>saved := False\<rparr>)],
       db = store_42_7\<lparr>events := [Find_all]\<rparr>\<rparr>, Inr ())
   \<and> \<not> write_fails (store_42_7\<lparr>events := [Find_all]\<rparr>)
   \<and> events (db (fst (save_all_streams example_codec
        \<lparr>streams = [(generate_stream_id ''qq'' user42 (Some group7),
                     stream_42_7\<lparr>saved := False\<rparr>)],
         db = store_42_7\<lparr>events := [Find_all]\<rparr>\<rparr>))) =
       [Find_all, Update_one (generate_stream_id ''qq'' user42 (Some group7))]
   \<and> snd (save_all_streams example_codec
        \<lparr>streams = [(generate_stream_id ''qq'' user42 (Some group7),
                     stream_42_7\<lparr>saved := False\<rparr>)],
         db = store_42_7\<lparr>events := [Find_all]\<rparr>\<rparr>) = Inr ()"
proof -
  let ?m' = "\<lparr>streams = [(generate_stream_id ''qq'' user42 (Some group7),
                          stream_42_7\<lparr>saved := False\<rparr>)],
              db = store_42_7\<lparr>events := [Find_all]\<rparr>\<rparr>"
  have h1: "load_all_streams example_codec (ChatManager_init store_42_7) (\<lambda>k. 300) =
     (?m', Inr ())"
    by (simp add: load_all_streams_read ChatManager_init_def store_42_7_def
        from_dict_to_dict codec_ok_example)
  have h2: "\<not> write_fails (db ?m')"
    by (simp add: store_42_7_def)
  from hydrated_records_are_dirty [OF h1 h2] h1 h2 show ?thesis
    by (simp add: dirty_ids_def store_42_7_def)
qed

section \<open>The dictionary stays in step with the store\<close>

lemma entry_synced_upsert_other:
  "entry_synced cd ds e \<Longrightarrow> fst e \<noteq> sid \<Longrightarrow> d_stream_id d = Some sid \<Longrightarrow>
     entry_synced cd (upsert sid d ds) e"
  by (simp add: entry_synced_def find_upsert_other)

lemma entry_synced_dirty: "\<not> saved s \<Longrightarrow> stream_id s = k \<Longrightarrow> entry_synced cd ds (k, s)"
  by (simp add: entry_synced_def)

lemma entry_synced_written:
  "stream_id s = k \<Longrightarrow> entry_synced cd (upsert k (to_dict cd s) ds) (k, s\<lparr>saved := True\<rparr>)"
  by (simp add: entry_synced_def find_upsert_same)

lemma list_all_synced_upsert:
  "list_all (entry_synced cd ds) strs \<Longrightarrow> sid \<notin> set (map fst strs) \<Longrightarrow>
   d_stream_id d = Some sid \<Longrightarrow> list_all (entry_synced cd (upsert sid d ds)) strs"
  by (induction strs) (auto simp add: entry_synced_upsert_other)

lemma synced_enter_dirty:
  "synced cd m \<Longrightarrow> \<not> saved s \<Longrightarrow> stream_id s = k \<Longrightarrow> docs st = docs (db m) \<Longrightarrow>
     synced cd (m\<lparr>streams := AList.update k s (streams m), db := st\<rparr>)"
  by (simp add: synced_def distinct_update list_all_update entry_synced_dirty)

lemma synced_enter_written:
  "synced cd m \<Longrightarrow> map_of (streams m) k = None \<Longrightarrow> stream_id s = k \<Longrightarrow>
   docs st = upsert k (to_dict cd s) (docs (db m)) \<Longrightarrow>
     synced cd (m\<lparr>streams := AList.update k (s\<lparr>saved := True\<rparr>) (streams m), db := st\<rparr>)"
  by (simp add: synced_def distinct_update list_all_update entry_synced_written
      list_all_synced_upsert map_of_eq_None_iff)

lemma synced_entry:
  "synced cd m \<Longrightarrow> map_of (streams m) k = Some s \<Longrightarrow> entry_synced cd (docs (db m)) (k, s)"
  by (auto simp add: synced_def list_all_iff dest!: map_of_SomeD)

lemma goc_synced:
  assumes ok: "synced cd m"
  shows "synced cd (fst (get_or_create_stream cd m pf ui gi t1 t2))"
proof -
  let ?sid = "generate_stream_id pf ui gi"
  show ?thesis
  proof (cases "map_of (streams m) ?sid")
    case (Some s)
    from synced_entry [OF ok Some] have "stream_id s = ?sid"
      by (simp add: entry_synced_def)
    with synced_enter_dirty [OF ok, of _ ?sid "db m"] show ?thesis
      by (simp add: goc_hit [OF Some])
  next
    case None
    show ?thesis
    proof (cases "read_fails (db m)")
      case True
      with None ok show ?thesis
        by (simp add: goc_read_fails synced_def)
    next
      case False
      note readable = this
      show ?thesis
      proof (cases "List.find (\<lambda>d. d_stream_id d = Some ?sid) (docs (db m))")
        case absent: None
        show ?thesis
        proof (cases "write_fails (db m)")
          case True
          with None readable absent synced_enter_dirty [OF ok] show ?thesis
            by (simp add: goc_create_write_fails)
        next
          case False
          with None readable absent synced_enter_written [OF ok None] show ?thesis
            by (simp add: goc_create_written)
        qed
      next
        case (Some d)
        show ?thesis
        proof (cases "from_dict cd d t1")
          case (Inl e)
          with None readable Some ok show ?thesis
            by (simp add: goc_found_undecodable synced_def)
        next
          case (Inr s0)
          from Some have "d_stream_id d = Some ?sid"
            by (auto dest: find_SomeD)
          with from_dict_stream_id [OF Inr] have id: "stream_id s0 = ?sid"
            by simp
          show ?thesis
          proof (cases "write_fails (db m)")
            case True
            with None readable Some Inr id synced_enter_dirty [OF ok] show ?thesis
              by (simp add: goc_found_write_fails)
          next
            case False
            let ?s = "s0\<lparr>user_info := Some ui,
                group_info := (case gi of Some g \<Rightarrow> Some g | None \<Rightarrow> group_info s0),
                last_active_time := t2, saved := False\<rparr>"
            have "stream_id ?s = ?sid"
              using id by simp
            from synced_enter_written [OF ok None this, of
                "(db m)\<lparr>events := events (db m) @ [Find_one ?sid, Update_one ?sid],
                   docs := upsert ?sid (to_dict cd ?s) (docs (db m))\<rparr>"]
              None readable Some Inr False
            show ?thesis
              by (simp add: goc_found_written)
          qed
        qed
      qed
    qed
  qed
qed

lemma save_streams_synced:
  "distinct (map fst strs) \<Longrightarrow> list_all (entry_synced cd (docs st)) strs \<Longrightarrow>
     list_all (entry_synced cd (docs (fst (snd (save_streams cd strs st)))))
       (fst (save_streams cd strs st))
     \<and> map fst (fst (save_streams cd strs st)) = map fst strs
     \<and> (\<forall>k. k \<notin> set (map fst strs) \<longrightarrow>
           List.find (\<lambda>d. d_stream_id d = Some k) (docs (fst (snd (save_streams cd strs st)))) =
           List.find (\<lambda>d. d_stream_id d = Some k) (docs st))"
proof (induction strs arbitrary: st)
  case Nil
  then show ?case by simp
next
  case (Cons e strs)
  obtain k s where e: "e = (k, s)"
    by (cases e)
  from Cons.prems e have k: "k \<notin> set (map fst strs)" and dist: "distinct (map fst strs)"
    and head: "entry_synced cd (docs st) (k, s)"
    and rest: "list_all (entry_synced cd (docs st)) strs"
    by simp_all
  from head have id: "stream_id s = k"
    by (simp add: entry_synced_def)
  show ?case
  proof (cases "saved s")
    case True
    from Cons.IH [OF dist rest] k head True e show ?thesis
      by (simp add: save_stream_saved case_prod_beta entry_synced_def)
  next
    case dirty: False
    show ?thesis
    proof (cases "write_fails st")
      case True
      with dirty e Cons.prems show ?thesis
        by (simp add: save_stream_failed)
    next
      case False
      let ?st = "st\<lparr>events := events st @ [Update_one (stream_id s)],
                     docs := upsert (stream_id s) (to_dict cd s) (docs st)\<rparr>"
      have rest': "list_all (entry_synced cd (docs ?st)) strs"
        using rest k id by (simp add: list_all_synced_upsert)
      have other: "k' \<noteq> k \<Longrightarrow>
          List.find (\<lambda>d. d_stream_id d = Some k') (docs ?st) =
          List.find (\<lambda>d. d_stream_id d = Some k') (docs st)" for k'
        using id by (simp add: find_upsert_other)
      have here: "List.find (\<lambda>d. d_stream_id d = Some k) (docs ?st) = Some (to_dict cd s)"
        using id by (simp add: find_upsert_same)
      from Cons.IH [OF dist rest'] k dirty False e id other here show ?thesis
        by (simp add: save_stream_written case_prod_beta entry_synced_def)
    qed
  qed
qed

lemma save_all_synced: "synced cd m \<Longrightarrow> synced cd (fst (save_all_streams cd m))"
  using save_streams_synced [of "streams m" cd "db m"]
  by (simp add: synced_def save_all_streams_def case_prod_beta)

lemma load_docs_synced:
  "distinct (map fst strs) \<Longrightarrow> list_all (entry_synced cd ds0) strs \<Longrightarrow>
     distinct (map fst (fst (load_docs cd clock k ds strs)))
     \<and> list_all (entry_synced cd ds0) (fst (load_docs cd clock k ds strs))"
proof (induction ds arbitrary: k strs)
  case Nil
  then show ?case by simp
next
  case (Cons d ds)
  show ?case
  proof (cases "from_dict cd d (clock k)")
    case (Inl e)
    with Cons.prems show ?thesis by simp
  next
    case (Inr s)
    have "distinct (map fst (AList.update (stream_id s) s strs))"
      and "list_all (entry_synced cd ds0) (AList.update (stream_id s) s strs)"
      using Cons.prems from_dict_saved [OF Inr]
      by (simp_all add: distinct_update list_all_update entry_synced_dirty)
    from Cons.IH [OF this] Inr show ?thesis by simp
  qed
qed

lemma load_all_synced: "synced cd m \<Longrightarrow> synced cd (fst (load_all_streams cd m clock))"
  using load_docs_synced [of "streams m" cd "docs (db m)" clock 0 "docs (db m)"]
  by (simp add: synced_def load_all_streams_def find_all_def Let_def case_prod_beta)

lemma step_synced: "synced cd m \<Longrightarrow> synced cd (step cd m c)"
  by (cases c) (simp_all add: goc_synced save_all_synced load_all_synced, simp add: synced_def)

lemma run_synced: "synced cd m \<Longrightarrow> synced cd (run cd m cs)"
  by (induction cs arbitrary: m) (simp_all add: run_def step_synced)

lemma synced_init: "synced cd (ChatManager_init st)"
  by (simp add: synced_def ChatManager_init_def)

section \<open>Persist, clear, hydrate\<close>

lemma upsert_ids:
  "d_stream_id d = Some sid \<Longrightarrow>
     map d_stream_id (upsert sid d ds) =
       (if Some sid \<in> set (map d_stream_id ds) then map d_stream_id ds
        else map d_stream_id ds @ [Some sid])"
  by (induction ds) auto

lemma distinct_upsert:
  "distinct (map d_stream_id ds) \<Longrightarrow> d_stream_id d = Some sid \<Longrightarrow>
     distinct (map d_stream_id (upsert sid d ds))"
  by (simp add: upsert_ids)

lemma upsert_member: "d \<in> set (upsert sid d ds)"
  by (induction ds) auto

lemma save_stream_store_ok:
  assumes ok: "store_ok cd st" and cd: "codec_ok cd s" and w: "\<not> write_fails st"
    and sync: "saved s \<longrightarrow>
      List.find (\<lambda>d. d_stream_id d = Some (stream_id s)) (docs st) = Some (to_dict cd s)"
  shows "store_ok cd (fst (save_stream cd st s))"
    and "to_dict cd s \<in> set (docs (fst (save_stream cd st s)))"
    and "read_fails (fst (save_stream cd st s)) = read_fails st"
    and "\<exists>s1. snd (save_stream cd st s) = Inr s1 \<and> saved s1"
proof -
  show "store_ok cd (fst (save_stream cd st s))"
  proof (cases "saved s")
    case True
    with ok show ?thesis by (simp add: save_stream_saved)
  next
    case False
    with ok cd w show ?thesis
      by (simp add: save_stream_written store_ok_def distinct_upsert list_all_upsert
          decodable_to_dict)
  qed
  show "to_dict cd s \<in> set (docs (fst (save_stream cd st s)))"
  proof (cases "saved s")
    case True
    with sync show ?thesis
      by (auto simp add: save_stream_saved dest: find_SomeD)
  next
    case False
    with w show ?thesis
      by (simp add: save_stream_written upsert_member)
  qed
  show "read_fails (fst (save_stream cd st s)) = read_fails st"
    using w by (cases "saved s") (simp_all add: save_stream_saved save_stream_written)
  show "\<exists>s1. snd (save_stream cd st s) = Inr s1 \<and> saved s1"
    using w by (cases "saved s") (simp_all add: save_stream_saved save_stream_written)
qed

lemma round_trip_of_record:
  assumes "codec_ok cd s" and "store_ok cd st"
    and "\<not> write_fails st" and "\<not> read_fails st"
    and "saved s \<longrightarrow>
      List.find (\<lambda>d. d_stream_id d = Some (stream_id s)) (docs st) = Some (to_dict cd s)"
  shows "(\<exists>s1. snd (save_stream cd st s) = Inr s1 \<and> saved s1)
     \<and> snd (load_all_streams cd \<lparr>streams = [], db = fst (save_stream cd st s)\<rparr> clock) = Inr ()
     \<and> get_stream
         (fst (load_all_streams cd \<lparr>streams = [], db = fst (save_stream cd st s)\<rparr> clock))
         (stream_id s) = Some (s\<lparr>saved := False\<rparr>)"
proof -
  let ?st = "fst (save_stream cd st s)"
  let ?m = "\<lparr>streams = [], db = ?st\<rparr>"
  note sv = save_stream_store_ok [OF assms(2,1,3,5)]
  from sv(3) assms(4) have r: "\<not> read_fails (db ?m)"
    by simp
  from sv(1) have dec: "list_all (decodable cd) (docs (db ?m))"
    and dist: "distinct (map d_stream_id (docs (db ?m)))"
    by (simp_all add: store_ok_def)
  have ok: "snd (load_docs cd clock 0 (docs (db ?m)) (streams ?m)) = Inr ()"
    using dec by (rule load_docs_succeeds)
  from sv(2) have mem: "to_dict cd s \<in> set (docs (db ?m))"
    by simp
  from load_docs_entry_distinct [OF ok mem to_dict_stream_id dist]
  have "map_of (fst (load_docs cd clock 0 (docs (db ?m)) (streams ?m))) (stream_id s) =
      Some (s\<lparr>saved := False\<rparr>)"
    by (simp add: from_dict_to_dict [OF assms(1)])
  then have e: "get_stream (fst (load_all_streams cd ?m clock)) (stream_id s) =
      Some (s\<lparr>saved := False\<rparr>)"
    by (simp add: load_all_streams_read [OF r] get_stream_def)
  have f: "snd (load_all_streams cd ?m clock) = Inr ()"
    using ok by (simp add: load_all_streams_read [OF r])
  from sv(4) e f show ?thesis
    by simp
qed

text \<open>
  C8: take any record of the dictionary after any run of calls on a manager, with user
  and group descriptions that serialise faithfully, at a moment when the store is well
  formed and can be read and written. Then saving the record succeeds, and a hydration
  into the emptied dictionary runs to its end and enters, under the record's key, a
  record with the same identifier, platform, user description, group description,
  creation time and time of last activity; it differs from the one saved at most in
  being dirty.
\<close>

theorem hydration_round_trip:
  assumes "get_stream (run cd (ChatManager_init st0) cs) k = Some s"
    and "codec_ok cd s"
    and "store_ok cd (db (run cd (ChatManager_init st0) cs))"
    and "\<not> write_fails (db (run cd (ChatManager_init st0) cs))"
    and "\<not> read_fails (db (run cd (ChatManager_init st0) cs))"
  shows "stream_id s = k
     \<and> (\<exists>s1. snd (save_stream cd (db (run cd (ChatManager_init st0) cs)) s) = Inr s1 \<and> saved s1)
     \<and> snd (load_all_streams cd
          \<lparr>streams = [], db = fst (save_stream cd (db (run cd (ChatManager_init st0) cs)) s)\<rparr>
          clock) = Inr ()
     \<and> get_stream
         (fst (load_all_streams cd
            \<lparr>streams = [], db = fst (save_stream cd (db (run cd (ChatManager_init st0) cs)) s)\<rparr>
            clock)) k = Some (s\<lparr>saved := False\<rparr>)
     \<and> (\<exists>s'. get_stream
           (fst (load_all_streams cd
              \<lparr>streams = [], db = fst (save_stream cd (db (run cd (ChatManager_init st0) cs)) s)\<rparr>
              clock)) k = Some s'
         \<and> stream_id s' = stream_id s \<and> platform s' = platform s
         \<and> user_info s' = user_info s \<and> group_info s' = group_info s
         \<and> create_time s' = create_time s \<and> last_active_time s' = last_active_time s)"
proof -
  let ?m = "run cd (ChatManager_init st0) cs"
  have "synced cd ?m"
    by (intro run_synced synced_init)
  from synced_entry [OF this] assms(1)
  have e: "entry_synced cd (docs (db ?m)) (k, s)"
    by (simp add: get_stream_def)
  then have id: "stream_id s = k"
    and sync: "saved s \<longrightarrow>
      List.find (\<lambda>d. d_stream_id d = Some (stream_id s)) (docs (db ?m)) = Some (to_dict cd s)"
    by (simp_all add: entry_synced_def)
  from round_trip_of_record [OF assms(2,3,4,5) sync, of clock] id show ?thesis
    by simp
qed

theorem hydration_round_trip_witness:
  "get_stream (run example_codec (ChatManager_init empty_store)
       [Get_or_create ''qq'' user42 (Some group7) 100 100])
     (generate_stream_id ''qq'' user42 (Some group7)) = Some stream_42_7
   \<and> saved stream_42_7
   \<and> get_stream
       (fst (load_all_streams example_codec
          \<lparr>streams = [],
           db = fst (save_stream example_codec
                  (db (run example_codec (ChatManager_init empty_store)
                         [Get_or_create ''qq'' user42 (Some group7) 100 100]))
                  stream_42_7)\<rparr>
          (\<lambda>k. 300)))
       (generate_stream_id ''qq'' user42 (Some group7)) = Some (stream_42_7\<lparr>saved := False\<rparr>)
   \<and> get_stream (run example_codec (ChatManager_init empty_store)
       [Get_or_create ''qq'' user42 (Some group7) 100 100,
        Get_or_create ''qq'' user42' (Some group7) 200 200])
     (generate_stream_id ''qq'' user42 (Some group7)) = Some stream_42_7_active
   \<and> \<not> saved stream_42_7_active
   \<and> get_stream
       (fst (load_all_streams example_codec
          \<lparr>streams = [],
           db = fst (save_stream example_codec
                  (db (run example_codec (ChatManager_init empty_store)
                         [Get_or_create ''qq'' user42 (Some group7) 100 100,
                          Get_or_create ''qq'' user42' (Some group7) 200 200]))
                  stream_42_7_active)\<rparr>
          (\<lambda>k. 300)))
       (generate_stream_id ''qq'' user42 (Some group7)) = Some stream_42_7_active"
proof -
  let ?sid = "generate_stream_id ''qq'' user42 (Some group7)"
  let ?st = "store_42_7\<lparr>events := [Find_one ?sid, Update_one ?sid]\<rparr>"
  let ?m1 = "run example_codec (ChatManager_init empty_store)
       [Get_or_create ''qq'' user42 (Some group7) 100 100]"
  let ?m2 = "run example_codec (ChatManager_init empty_store)
       [Get_or_create ''qq'' user42 (Some group7) 100 100,
        Get_or_create ''qq'' user42' (Some group7) 200 200]"
  have m1: "?m1 = manager_42_7\<lparr>db := ?st\<rparr>"
    by (simp add: run_def ChatManager_init_def example_first_call)
  have hit: "map_of (streams (manager_42_7\<lparr>db := ?st\<rparr>))
      (generate_stream_id ''qq'' user42' (Some group7)) = Some stream_42_7"
    by (simp add: manager_42_7_def same_id_42)
  have "?m2 = fst (get_or_create_stream example_codec (manager_42_7\<lparr>db := ?st\<rparr>) ''qq'' user42'
      (Some group7) 200 200)"
    by (simp add: run_def ChatManager_init_def example_first_call)
  also have "\<dots> = manager_42_7_active\<lparr>db := ?st\<rparr>"
    unfolding goc_hit [OF hit]
    by (simp add: manager_42_7_def manager_42_7_active_def stream_42_7_active_def
        stream_42_7_def same_id_42)
  finally have m2: "?m2 = manager_42_7_active\<lparr>db := ?st\<rparr>" .
  have g1: "get_stream ?m1 ?sid = Some stream_42_7"
    unfolding m1 by (simp add: get_stream_def manager_42_7_def)
  have g2: "get_stream ?m2 ?sid = Some stream_42_7_active"
    unfolding m2 by (simp add: get_stream_def manager_42_7_active_def)
  have c: "codec_ok example_codec s" for s
    by (rule codec_ok_example)
  have st: "store_ok example_codec ?st" "\<not> write_fails ?st" "\<not> read_fails ?st"
    by (simp_all add: store_ok_def store_42_7_def decodable_to_dict codec_ok_example)
  have db1: "db ?m1 = ?st"
    unfolding m1 by simp
  have db2: "db ?m2 = ?st"
    unfolding m2 by simp
  have same: "stream_42_7_active\<lparr>saved := False\<rparr> = stream_42_7_active"
    and d: "\<not> saved stream_42_7_active" and sv: "saved stream_42_7"
    by (simp_all add: stream_42_7_active_def stream_42_7_def)
  note t1 = hydration_round_trip [OF g1 c st [folded db1], of "\<lambda>k. 300"]
  note t2 = hydration_round_trip [OF g2 c st [folded db2], of "\<lambda>k. 300"]
  from t1 t2 g1 g2 d sv show ?thesis
    by (simp add: same)
qed

end
